theory Spec2Isabelle
  imports Main "HOL-Library.Sublist" "HOL-Library.Multiset"
begin

section \<open>The V LIVE extractors of \<^verbatim>\<open>youtube_dl/extractor/vlive.py\<close>\<close>

text \<open>
  The extractors are sequences of HTTP fetches, regular-expression searches and JSON
  look-ups. The embedding keeps the control flow of each method of the source and
  makes the two things the Python leaves implicit explicit:
  \<^item> every exception is a value of type \<open>error\<close> (a run ends at the first one);
  \<^item> every call that leaves the process (a download, a format extraction, a line
    printed to the screen) is recorded, in order, in the run's list of events.

  What the network answers, and what the helpers of the base classes compute, is
  the environment of a run (\<open>env\<close>): the extractors are functions of it.
\<close>

subsection \<open>Decoded JSON and Python's operations on it\<close>

text \<open>
  The values \<^verbatim>\<open>json.loads\<close> produces. Numbers are the integers; the fields the
  extractors read hold strings, booleans, integers, lists and objects. An object keeps
  its members as an association list (keys are distinct after decoding).
\<close>

datatype json =
    JNull
  | JBool bool
  | JInt int
  | JStr string
  | JArr "json list"
  | JObj "(string \<times> json) list"

text \<open>The requests the extractors send, named after the endpoint they address.\<close>

datatype request =
    VideoPage string
    \<comment> \<open>\<^verbatim>\<open>https://www.vlive.tv/video/{video_id}\<close>\<close>
  | Inkey string
    \<comment> \<open>\<^verbatim>\<open>https://www.vlive.tv/globalv-web/vam-web/video/v1.0/vod/{video_id}/inkey\<close>\<close>
  | PlayInfo string
    \<comment> \<open>\<^verbatim>\<open>https://www.vlive.tv/globalv-web/vam-web/old/v3/live/{video_id}/playInfo\<close>\<close>
  | LoginCookies
    \<comment> \<open>GET \<^verbatim>\<open>https://www.vlive.tv/auth/email/login\<close>\<close>
  | LoginPost string string
    \<comment> \<open>POST of email and pwd to the same address\<close>
  | LoginInfo
    \<comment> \<open>\<^verbatim>\<open>https://www.vlive.tv/auth/loginInfo\<close>\<close>
  | ChannelPage string
    \<comment> \<open>\<^verbatim>\<open>http://channels.vlive.tv/{channel_code}/video\<close>\<close>
  | AppJS string
    \<comment> \<open>the app.js address found in the channel page\<close>
  | DecodeChannelCode string string
    \<comment> \<open>\<^verbatim>\<open>.../vproxy/channelplus/decodeChannelCode\<close> with app_id and channelCode\<close>
  | ChannelVideoList string json nat
    \<comment> \<open>\<^verbatim>\<open>.../vproxy/channelplus/getChannelVideoList\<close> with app_id, channelSeq, pageNo
        (maxNumOfRows is the constant 100; the time stamp only defeats caches)\<close>
  | PlaylistPage string string
    \<comment> \<open>\<^verbatim>\<open>http://www.vlive.tv/video/{video_id}/playlist/{playlist_id}\<close>\<close>

datatype error =
    ExtractorError string bool
    \<comment> \<open>raised by the extractors themselves: message and the \<^verbatim>\<open>expected\<close> flag\<close>
  | RegexNotFoundError string
    \<comment> \<open>a fatal \<^verbatim>\<open>_search_regex\<close> without a match: the name of the field looked for\<close>
  | JSONError "string option"
    \<comment> \<open>a fatal \<^verbatim>\<open>_parse_json\<close> on text that is not JSON: the video id it was given\<close>
  | DownloadError request
    \<comment> \<open>a fatal download that got no response\<close>
  | KeyError string
  | TypeError
  | AttributeError
  | UnboundLocalError string

text \<open>Truth value testing (\<^verbatim>\<open>if x:\<close>, \<^verbatim>\<open>not x\<close>, \<^verbatim>\<open>x or y\<close>).\<close>

fun truthy :: "json \<Rightarrow> bool" where
  "truthy JNull = False"
| "truthy (JBool b) = b"
| "truthy (JInt i) = (i \<noteq> 0)"
| "truthy (JStr s) = (s \<noteq> [])"
| "truthy (JArr xs) = (xs \<noteq> [])"
| "truthy (JObj kvs) = (kvs \<noteq> [])"

text \<open>
  Subscription \<^verbatim>\<open>x['k']\<close> with a string key: a dict answers or raises KeyError; a
  list or a string wants an integer index and every other value is not subscriptable
  (TypeError in both cases).
\<close>

fun subscript :: "json \<Rightarrow> string \<Rightarrow> error + json" where
  "subscript (JObj kvs) k = (case map_of kvs k of None \<Rightarrow> Inl (KeyError k) | Some v \<Rightarrow> Inr v)"
| "subscript _ k = Inl TypeError"

text \<open>
  \<^verbatim>\<open>x.get('k', d)\<close>: only a dict has the method; \<^verbatim>\<open>x.get('k')\<close> is the call
  with the default \<open>JNull\<close> (Python's None).
\<close>

fun dict_get :: "json \<Rightarrow> string \<Rightarrow> json \<Rightarrow> error + json" where
  "dict_get (JObj kvs) k d = Inr (case map_of kvs k of None \<Rightarrow> d | Some v \<Rightarrow> v)"
| "dict_get _ k d = Inl AttributeError"

text \<open>
  \<^verbatim>\<open>for v in x\<close>: a list yields its items, a string its characters, a dict its
  keys; nothing else is iterable.
\<close>

fun py_iter :: "json \<Rightarrow> error + json list" where
  "py_iter (JArr xs) = Inr xs"
| "py_iter (JStr s) = Inr (map (\<lambda>c. JStr [c]) s)"
| "py_iter (JObj kvs) = Inr (map (\<lambda>kv. JStr (fst kv)) kvs)"
| "py_iter _ = Inl TypeError"

text \<open>Decimal notation of an integer, as \<^verbatim>\<open>str\<close> prints it.\<close>

fun digits :: "nat \<Rightarrow> string" where
  "digits n =
     (if n < 10 then [''0123456789'' ! n]
      else digits (n div 10) @ [''0123456789'' ! (n mod 10)])"

declare digits.simps [simp del]

definition str_int :: "int \<Rightarrow> string" where
  "str_int i = (if i < 0 then CHR ''-'' # digits (nat (- i)) else digits (nat i))"

subsection \<open>Runs: events and outcomes\<close>

datatype event =
    Fetch request
  | ToScreen string
  | ExtractM3U8Formats json json
    \<comment> \<open>\<^verbatim>\<open>_extract_m3u8_formats\<close> with the manifest address and the m3u8_id\<close>
  | ExtractVideoInfo string json json
    \<comment> \<open>\<^verbatim>\<open>_extract_video_info\<close> with video id, long video id and key\<close>

text \<open>
  A run is the list of events it caused, in order, and its outcome: the exception that
  ended it (\<open>Inl\<close>) or the value returned (\<open>Inr\<close>).
\<close>

type_synonym 'a run = "event list \<times> (error + 'a)"

definition ret :: "'a \<Rightarrow> 'a run" where
  "ret x = ([], Inr x)"

definition raise :: "error \<Rightarrow> 'a run" where
  "raise e = ([], Inl e)"

definition pure :: "error + 'a \<Rightarrow> 'a run" where
  "pure r = ([], r)"

definition bind :: "'a run \<Rightarrow> ('a \<Rightarrow> 'b run) \<Rightarrow> 'b run" where
  "bind m f =
     (case snd m of
        Inl e \<Rightarrow> (fst m, Inl e)
      | Inr x \<Rightarrow> (fst m @ fst (f x), snd (f x)))"

type_synonym format = "(string \<times> json) list"
type_synonym info_dict = "(string \<times> json) list"

datatype pattern =
    APP_JS_RE
    \<comment> \<open>the script tag whose src ends in app.js, group url\<close>
  | APP_ID_RE
    \<comment> \<open>the assignment to Global.VFAN_APP_ID\<close>
  | PLAYLIST_SEQS_RE
    \<comment> \<open>\<^verbatim>\<open>playlistVideoSeqs\s*=\s*(\[[^]]+\])\<close>\<close>
  | PLAYLIST_TITLE_RE
    \<comment> \<open>the h3 of the multicam_playlist div\<close>

record env =
  http :: "request \<Rightarrow> string option"
  loads :: "string \<Rightarrow> json option"
  re_search :: "pattern \<Rightarrow> string \<Rightarrow> string option"
  m3u8_formats :: "json \<Rightarrow> json \<Rightarrow> format list option"
  video_info :: "string \<Rightarrow> json \<Rightarrow> json \<Rightarrow> error + info_dict"
  format_key :: "format \<Rightarrow> int"
  sort_error :: "format list \<Rightarrow> error option"
  py_repr :: "json \<Rightarrow> string"
  get_login_info :: "string option \<times> string option"
  noplaylist :: bool

text \<open>
  The fields of the environment:
  \<^item> \<open>http\<close>: the body the server answers a request with, \<open>None\<close> when the
    transfer fails;
  \<^item> \<open>loads\<close>: \<^verbatim>\<open>json.loads\<close>, \<open>None\<close> for text that is not JSON;
  \<^item> \<open>re_search\<close>: the group a pattern of the channel and playlist extractors
    captures in a text, \<open>None\<close> without a match;
  \<^item> \<open>m3u8_formats\<close>: the formats of one manifest, \<open>None\<close> when its extraction fails;
  \<^item> \<open>video_info\<close>: the outcome of \<^verbatim>\<open>NaverBaseIE._extract_video_info\<close>;
  \<^item> \<open>format_key\<close>: the rank \<^verbatim>\<open>_sort_formats\<close> orders formats by;
  \<^item> \<open>sort_error\<close>: the exception \<^verbatim>\<open>_sort_formats\<close> raises on a list, \<open>None\<close>
    when it accepts the list;
  \<^item> \<open>py_repr\<close>: how Python prints a list or a dict;
  \<^item> \<open>get_login_info\<close>: the credentials \<^verbatim>\<open>_get_login_info\<close> finds;
  \<^item> \<open>noplaylist\<close>: the \<^verbatim>\<open>noplaylist\<close> parameter of the downloader.
\<close>

text \<open>\<^verbatim>\<open>str(x)\<close>, \<^verbatim>\<open>compat_str(x)\<close> and \<^verbatim>\<open>'%s' % x\<close> of a decoded value.\<close>

fun py_str :: "env \<Rightarrow> json \<Rightarrow> string" where
  "py_str E (JStr s) = s"
| "py_str E JNull = ''None''"
| "py_str E (JBool b) = (if b then ''True'' else ''False'')"
| "py_str E (JInt i) = str_int i"
| "py_str E v = py_repr E v"

text \<open>
  Modelled from the spec: \<^verbatim>\<open>InfoExtractor._download_webpage\<close> and
  \<^verbatim>\<open>_request_webpage\<close> (common.py) are not among the sources. A call is one
  request; a failed fetch is fatal to the extraction call, otherwise the body of the
  response is returned.
\<close>

definition download_webpage :: "env \<Rightarrow> request \<Rightarrow> string run" where
  "download_webpage E r =
     ([Fetch r], case http E r of None \<Rightarrow> Inl (DownloadError r) | Some body \<Rightarrow> Inr body)"

text \<open>
  Modelled from the spec: \<^verbatim>\<open>InfoExtractor._parse_json\<close> (common.py) is not among
  the sources. A failed JSON parse is fatal to the extraction call; the helper is
  given the text and the video id only.
\<close>

definition parse_json :: "env \<Rightarrow> string \<Rightarrow> string option \<Rightarrow> json run" where
  "parse_json E s video_id =
     pure (case loads E s of None \<Rightarrow> Inl (JSONError video_id) | Some v \<Rightarrow> Inr v)"

definition download_json :: "env \<Rightarrow> request \<Rightarrow> string option \<Rightarrow> json run" where
  "download_json E r video_id = bind (download_webpage E r) (\<lambda>s. parse_json E s video_id)"

subsection \<open>The page state parser\<close>

text \<open>
  \<^verbatim>\<open>PRELOAD_STATE_RE = r'>window\.__PRELOADED_STATE__=({.+})</script>'\<close>, searched
  the way \<^verbatim>\<open>re.search\<close> does: the leftmost position where the pattern matches wins;
  there, \<^verbatim>\<open>.+\<close> takes one or more characters other than a newline, as many as it can
  while the closing brace and \<^verbatim>\<open></script>\<close> still follow. The result is group 1.
\<close>

definition PRELOAD_STATE_PREFIX :: string where
  "PRELOAD_STATE_PREFIX = ''>window.__PRELOADED_STATE__=''"

definition PRELOAD_STATE_SUFFIX :: string where
  "PRELOAD_STATE_SUFFIX = ''</script>''"

definition PRELOAD_STATE_FIELD :: string where
  "PRELOAD_STATE_FIELD = ''preload state''"

text \<open>
  \<open>dot_plus line k\<close>: the longest non-empty prefix of \<open>line\<close>, of at most \<open>k\<close>
  characters, that is followed by the rest of the pattern (greedy, with backtracking).
\<close>

fun dot_plus :: "string \<Rightarrow> nat \<Rightarrow> string option" where
  "dot_plus line 0 = None"
| "dot_plus line (Suc k) =
     (if prefix (CHR ''}'' # PRELOAD_STATE_SUFFIX) (drop (Suc k) line)
      then Some (take (Suc k) line)
      else dot_plus line k)"

definition match_here :: "string \<Rightarrow> string option" where
  "match_here s =
     (if prefix (PRELOAD_STATE_PREFIX @ ''{'') s
      then (let line = takeWhile (\<lambda>c. c \<noteq> CHR 0x0A) (drop (length PRELOAD_STATE_PREFIX + 1) s)
            in case dot_plus line (length line) of
                 None \<Rightarrow> None
               | Some body \<Rightarrow> Some (''{'' @ body @ ''}''))
      else None)"

fun search_preload_state :: "string \<Rightarrow> string option" where
  "search_preload_state [] = None"
| "search_preload_state (c # cs) =
     (case match_here (c # cs) of
        Some g \<Rightarrow> Some g
      | None \<Rightarrow> search_preload_state cs)"

text \<open>
  Modelled from the spec: \<^verbatim>\<open>InfoExtractor._search_regex\<close> (common.py) is not among
  the sources. Called with a field name and no default, it fails with an error naming
  the missing field when the pattern has no match. Where the pattern matches, it is
  the search of Python's \<^verbatim>\<open>re\<close> module, given as \<open>search\<close>, whose group it
  returns.
\<close>

definition search_regex_fatal :: "(string \<Rightarrow> string option) \<Rightarrow> string \<Rightarrow> string \<Rightarrow> string run" where
  "search_regex_fatal search text name =
     pure (case search text of None \<Rightarrow> Inl (RegexNotFoundError name) | Some g \<Rightarrow> Inr g)"

text \<open>Lines 104 to 110 of \<^verbatim>\<open>VLiveIE._real_extract\<close>.\<close>

definition parse_preload_state :: "env \<Rightarrow> string \<Rightarrow> string \<Rightarrow> json run" where
  "parse_preload_state E webpage video_id =
     bind (search_regex_fatal search_preload_state webpage PRELOAD_STATE_FIELD)
       (\<lambda>s. parse_json E s (Some video_id))"

subsection \<open>\<^verbatim>\<open>VLiveIE\<close>: one video\<close>

text \<open>\<^verbatim>\<open>x[k1][k2]...\<close>, raising at the first subscription that fails.\<close>

fun path :: "json \<Rightarrow> string list \<Rightarrow> error + json" where
  "path x [] = Inr x"
| "path x (k # ks) = (case subscript x k of Inl e \<Rightarrow> Inl e | Inr v \<Rightarrow> path v ks)"

record common_fields =
  title :: string
  creator :: json
  thumbnail :: json

text \<open>
  \<^verbatim>\<open>_get_common_fields\<close>. The three entries of the dict are evaluated in order;
  \<^verbatim>\<open>"[V LIVE] " + t\<close> raises TypeError unless \<open>t\<close> is a string.
\<close>

definition get_common_fields :: "json \<Rightarrow> error + common_fields" where
  "get_common_fields preload_state =
     (case path preload_state [''postDetail'', ''post'', ''title''] of
        Inl e \<Rightarrow> Inl e
      | Inr t \<Rightarrow>
          (case t of
             JStr s \<Rightarrow>
               (case path preload_state [''channel'', ''channel'', ''channelName''] of
                  Inl e \<Rightarrow> Inl e
                | Inr c \<Rightarrow>
                    (case path preload_state [''postDetail'', ''post'', ''officialVideo'', ''thumb''] of
                       Inl e \<Rightarrow> Inl e
                     | Inr th \<Rightarrow> Inr \<lparr>title = ''[V LIVE] '' @ s, creator = c, thumbnail = th\<rparr>))
           | _ \<Rightarrow> Inl TypeError))"

datatype video_result =
    LiveVideo common_fields string "format list" bool
    \<comment> \<open>the common fields updated with id, formats and is_live\<close>
  | ReplayVideo common_fields info_dict
    \<comment> \<open>\<^verbatim>\<open>merge_dicts\<close> of the common fields and the extracted video info\<close>

text \<open>
  \<^verbatim>\<open>_extract_video_info\<close> of \<^verbatim>\<open>NaverBaseIE\<close> (naver.py, not among the sources):
  the call is an event and its outcome is the environment's.
\<close>

definition extract_video_info :: "env \<Rightarrow> string \<Rightarrow> json \<Rightarrow> json \<Rightarrow> info_dict run" where
  "extract_video_info E video_id long_video_id key =
     ([ExtractVideoInfo video_id long_video_id key], video_info E video_id long_video_id key)"

text \<open>\<^verbatim>\<open>_replay\<close>. The arguments of \<^verbatim>\<open>merge_dicts\<close> are evaluated left to right.\<close>

definition replay :: "env \<Rightarrow> string \<Rightarrow> json \<Rightarrow> json \<Rightarrow> video_result run" where
  "replay E video_id preload_state key =
     bind (pure (path preload_state [''postDetail'', ''post'', ''officialVideo'', ''vodId'']))
       (\<lambda>long_video_id.
          bind (pure (get_common_fields preload_state))
            (\<lambda>common.
               bind (extract_video_info E video_id long_video_id key)
                 (\<lambda>info. ret (ReplayVideo common info))))"

text \<open>
  Modelled from the spec: \<^verbatim>\<open>InfoExtractor._extract_m3u8_formats\<close> (common.py) is not
  among the sources. It yields the formats of one manifest; called with
  \<^verbatim>\<open>fatal=False\<close> it fails soft: an entry whose extraction fails contributes no
  format and does not abort.
\<close>

definition extract_m3u8_formats :: "env \<Rightarrow> json \<Rightarrow> json \<Rightarrow> bool \<Rightarrow> format list run" where
  "extract_m3u8_formats E m3u8_url m3u8_id fatal =
     ([ExtractM3U8Formats m3u8_url m3u8_id],
      case m3u8_formats E m3u8_url m3u8_id of
        None \<Rightarrow> if fatal then Inl (ExtractorError ''Failed to download m3u8 information'' False) else Inr []
      | Some fs \<Rightarrow> Inr fs)"

text \<open>
  Modelled from the spec: \<^verbatim>\<open>InfoExtractor._sort_formats\<close> (common.py) is not among
  the sources. It sorts the formats by a fixed quality ordering, the rank of a format
  being the environment's. Which lists the helper accepts is not settled by the sources
  at hand: the exception it raises on a list, if any, is the environment's as well.
\<close>

definition sort_formats :: "env \<Rightarrow> format list \<Rightarrow> format list run" where
  "sort_formats E formats =
     pure (case sort_error E formats of
             Some e \<Rightarrow> Inl e
           | None \<Rightarrow> Inr (sort_key (format_key E) formats))"

text \<open>
  The loop of \<^verbatim>\<open>_live\<close> over the stream entries:
  \<^verbatim>\<open>vid['serviceUrl']\<close>, then \<^verbatim>\<open>vid.get('streamName')\<close>, then the extraction, whose
  formats extend the list.
\<close>

fun live_formats :: "env \<Rightarrow> json list \<Rightarrow> format list \<Rightarrow> format list run" where
  "live_formats E [] formats = ret formats"
| "live_formats E (vid # vids) formats =
     bind (pure (subscript vid ''serviceUrl''))
       (\<lambda>service_url.
          bind (pure (dict_get vid ''streamName'' JNull))
            (\<lambda>stream_name.
               bind (extract_m3u8_formats E service_url stream_name False)
                 (\<lambda>fs. live_formats E vids (formats @ fs))))"

text \<open>
  \<^verbatim>\<open>_live\<close>. The formats are sorted before the common fields are read (lines 176
  and 178).
\<close>

definition live :: "env \<Rightarrow> string \<Rightarrow> json \<Rightarrow> video_result run" where
  "live E video_id preload_state =
     bind (download_webpage E (PlayInfo video_id))
       (\<lambda>live_webpage.
          bind (parse_json E live_webpage (Some video_id))
            (\<lambda>live_json.
               bind (pure (subscript live_json ''result''))
                 (\<lambda>result.
                    bind (pure (dict_get result ''streamList'' (JArr [])))
                      (\<lambda>stream_list.
                         bind (pure (py_iter stream_list))
                           (\<lambda>vids.
                              bind (live_formats E vids [])
                                (\<lambda>formats.
                                   bind (sort_formats E formats)
                                     (\<lambda>sorted.
                                        bind (pure (get_common_fields preload_state))
                                          (\<lambda>info.
                                             ret (LiveVideo info video_id sorted True)))))))))"

text \<open>
  Lines 112 to 128 of \<^verbatim>\<open>_real_extract\<close>: the status, and the key when the type is
  not LIVE. The variable \<^verbatim>\<open>key\<close> stays unbound in the LIVE branch.
\<close>

definition resolve_status :: "env \<Rightarrow> string \<Rightarrow> json \<Rightarrow> (json \<times> json option) run" where
  "resolve_status E video_id preload_state =
     bind (pure (path preload_state [''postDetail'', ''post'', ''officialVideo'', ''upcomingYn'']))
       (\<lambda>upcoming.
          bind (pure (path preload_state [''postDetail'', ''post'', ''officialVideo'', ''type'']))
            (\<lambda>vid_type.
               if vid_type = JStr ''LIVE''
               then (if truthy upcoming
                     then ret (JStr ''UPCOMING'', None)
                     else ret (vid_type, None))
               else bind (download_webpage E (Inkey video_id))
                      (\<lambda>key_webpage.
                         bind (parse_json E key_webpage (Some video_id))
                           (\<lambda>key_json.
                              bind (pure (subscript key_json ''inkey''))
                                (\<lambda>key. ret (vid_type, Some key))))))"

text \<open>Lines 130 to 147: the dispatch on the status.\<close>

definition dispatch :: "env \<Rightarrow> string \<Rightarrow> json \<Rightarrow> json \<Rightarrow> json option \<Rightarrow> video_result run" where
  "dispatch E video_id preload_state status key =
     (if status \<in> {JStr ''LIVE_ON_AIR'', JStr ''BIG_EVENT_ON_AIR'', JStr ''LIVE''}
      then live E video_id preload_state
      else if status \<in> {JStr ''VOD_ON_AIR'', JStr ''BIG_EVENT_INTRO'', JStr ''VOD''}
      then (case key of
              None \<Rightarrow> raise (UnboundLocalError ''key'')
            | Some k \<Rightarrow> replay E video_id preload_state k)
      else if status = JStr ''LIVE_END''
      then raise (ExtractorError ''Uploading for replay. Please wait...'' True)
      else if status \<in> {JStr ''COMING_SOON'', JStr ''UPCOMING''}
      then raise (ExtractorError ''Coming soon!'' True)
      else if status = JStr ''CANCELED''
      then raise (ExtractorError ''We are sorry, but the live broadcast has been canceled.'' True)
      else if status = JStr ''ONLY_APP''
      then raise (ExtractorError ''Unsupported video type'' True)
      else raise (ExtractorError (''Unknown status '' @ py_str E status) False))"

text \<open>\<^verbatim>\<open>VLiveIE._real_extract\<close>; \<open>video_id\<close> is the id matched in the URL.\<close>

definition real_extract :: "env \<Rightarrow> string \<Rightarrow> video_result run" where
  "real_extract E video_id =
     bind (download_webpage E (VideoPage video_id))
       (\<lambda>webpage.
          bind (parse_preload_state E webpage video_id)
            (\<lambda>preload_state.
               bind (resolve_status E video_id preload_state)
                 (\<lambda>sk. dispatch E video_id preload_state (fst sk) (snd sk))))"

subsection \<open>\<^verbatim>\<open>VLiveIE._login\<close>\<close>

text \<open>
  Modelled from the spec: \<^verbatim>\<open>try_get\<close> (utils.py) is not among the sources. It
  follows a path of subscriptions and yields the value found when it has the expected
  type; a value that is absent (a subscription on the way raises) or of another type
  yields nothing.
\<close>

definition try_get :: "json \<Rightarrow> string list \<Rightarrow> (json \<Rightarrow> bool) \<Rightarrow> json option" where
  "try_get src keys expected_type =
     (case path src keys of
        Inl e \<Rightarrow> None
      | Inr v \<Rightarrow> if expected_type v then Some v else None)"

fun is_bool :: "json \<Rightarrow> bool" where
  "is_bool (JBool b) = True"
| "is_bool _ = False"

fun is_str :: "json \<Rightarrow> bool" where
  "is_str (JStr s) = True"
| "is_str _ = False"

fun is_list :: "json \<Rightarrow> bool" where
  "is_list (JArr xs) = True"
| "is_list _ = False"

text \<open>Truth of a value that may be None: \<^verbatim>\<open>if x:\<close> on the result of \<open>try_get\<close>.\<close>

fun truthy_opt :: "json option \<Rightarrow> bool" where
  "truthy_opt None = False"
| "truthy_opt (Some v) = truthy v"

text \<open>The local function \<^verbatim>\<open>is_logged_in\<close>: \<^verbatim>\<open>try_get(...) or False\<close>.\<close>

definition is_logged_in :: "env \<Rightarrow> bool run" where
  "is_logged_in E =
     bind (download_json E LoginInfo None)
       (\<lambda>login_info. ret (truthy_opt (try_get login_info [''message'', ''login''] is_bool)))"

definition login :: "env \<Rightarrow> unit run" where
  "login E =
     (let email = fst (get_login_info E); password = snd (get_login_info E)
      in if email = None \<or> password = None
         then ret ()
         else bind (download_webpage E LoginCookies)
                (\<lambda>_. bind (download_webpage E (LoginPost (the email) (the password)))
                   (\<lambda>_. bind (is_logged_in E)
                      (\<lambda>logged_in.
                         if \<not> logged_in
                         then raise (ExtractorError ''Unable to log in'' True)
                         else ret ()))))"

subsection \<open>\<^verbatim>\<open>VLiveChannelIE\<close>: a channel listing\<close>

datatype result =
    UrlResult string string string
    \<comment> \<open>\<^verbatim>\<open>url_result(url, ie=..., video_id=...)\<close>\<close>
  | PlaylistResult "result list" string "string option"
    \<comment> \<open>\<^verbatim>\<open>playlist_result(entries, playlist_id, playlist_title)\<close>\<close>

definition APP_ID :: string where
  "APP_ID = ''8c6cc7b45d2568fb668be6e05b6e5a3b''"

definition VIDEO_URL_TEMPLATE :: string where
  "VIDEO_URL_TEMPLATE = ''http://www.vlive.tv/video/''"

text \<open>\<^verbatim>\<open>VLiveIE.ie_key()\<close>: the class name without its last two letters.\<close>

definition ie_key :: string where
  "ie_key = ''VLive''"

text \<open>\<^verbatim>\<open>_download_webpage(..., fatal=False)\<close>: no response is no error.\<close>

definition download_webpage_nonfatal :: "env \<Rightarrow> request \<Rightarrow> string option run" where
  "download_webpage_nonfatal E r = ([Fetch r], Inr (http E r))"

text \<open>Truth of a string that may be None.\<close>

fun nonempty :: "string option \<Rightarrow> bool" where
  "nonempty None = False"
| "nonempty (Some s) = (s \<noteq> [])"

text \<open>
  Lines 211 to 241 of \<^verbatim>\<open>VLiveChannelIE._real_extract\<close>: the app id (the one found
  in app.js, or the built-in one) and the channel's sequence number.
\<close>

definition channel_seq_of :: "env \<Rightarrow> string \<Rightarrow> (string \<times> json) run" where
  "channel_seq_of E channel_code =
     bind (download_webpage E (ChannelPage channel_code))
       (\<lambda>webpage.
          bind (let app_js_url = re_search E APP_JS_RE webpage
                in if nonempty app_js_url
                   then bind (download_webpage_nonfatal E (AppJS (the app_js_url)))
                          (\<lambda>app_js.
                             if nonempty app_js
                             then ret (re_search E APP_ID_RE (the app_js))
                             else ret None)
                   else ret None)
            (\<lambda>found.
               let app_id = (if nonempty found then the found else APP_ID)
               in bind (download_json E (DecodeChannelCode app_id channel_code) (Some channel_code))
                    (\<lambda>channel_info.
                       bind (pure (path channel_info [''result'', ''channelSeq'']))
                         (\<lambda>channel_seq. ret (app_id, channel_seq)))))"

text \<open>
  The inner loop, lines 274 to 282: an item without a true \<^verbatim>\<open>videoSeq\<close> is passed
  over; every other one appends a link to its video.
\<close>

fun channel_entries :: "env \<Rightarrow> json list \<Rightarrow> result list \<Rightarrow> error + result list" where
  "channel_entries E [] entries = Inr entries"
| "channel_entries E (video # videos) entries =
     (case dict_get video ''videoSeq'' JNull of
        Inl e \<Rightarrow> Inl e
      | Inr video_id \<Rightarrow>
          if \<not> truthy video_id
          then channel_entries E videos entries
          else channel_entries E videos
                 (entries @ [UrlResult (VIDEO_URL_TEMPLATE @ py_str E video_id) ie_key (py_str E video_id)]))"

text \<open>\<^verbatim>\<open>try_get(..., compat_str)\<close> as a string that may be None.\<close>

fun str_opt :: "json option \<Rightarrow> string option" where
  "str_opt (Some (JStr s)) = Some s"
| "str_opt _ = None"

fun list_items :: "json option \<Rightarrow> json list" where
  "list_items (Some (JArr xs)) = xs"
| "list_items _ = []"

text \<open>
  The outer loop, lines 245 to 282, from page \<open>page_num\<close> on, with the name and the
  entries gathered so far and the events so far. \<^verbatim>\<open>itertools.count(1)\<close> has no end:
  the loop ends at the \<^verbatim>\<open>break\<close> or at an exception, and a run that never gets there
  has no outcome (\<open>None\<close>).
\<close>

partial_function (option) channel_pages ::
  "env \<Rightarrow> string \<Rightarrow> string \<Rightarrow> json \<Rightarrow> nat \<Rightarrow> string option \<Rightarrow> result list \<Rightarrow> event list
     \<Rightarrow> (string option \<times> result list) run option" where
  "channel_pages E channel_code app_id channel_seq page_num channel_name entries events =
     (let r = download_json E (ChannelVideoList app_id channel_seq page_num) (Some channel_code)
      in case snd r of
           Inl e \<Rightarrow> Some (events @ fst r, Inl e)
         | Inr video_list \<Rightarrow>
             (let channel_name' =
                    (if \<not> nonempty channel_name
                     then str_opt (try_get video_list [''result'', ''channelInfo'', ''channelName''] is_str)
                     else channel_name);
                  videos = try_get video_list [''result'', ''videoList''] is_list
              in if \<not> truthy_opt videos
                 then Some (events @ fst r, Inr (channel_name', entries))
                 else (case channel_entries E (list_items videos) entries of
                         Inl e \<Rightarrow> Some (events @ fst r, Inl e)
                       | Inr entries' \<Rightarrow>
                           channel_pages E channel_code app_id channel_seq (Suc page_num)
                             channel_name' entries' (events @ fst r))))"

text \<open>\<^verbatim>\<open>VLiveChannelIE._real_extract\<close>; \<open>channel_code\<close> is the id matched in the URL.\<close>

definition channel_real_extract :: "env \<Rightarrow> string \<Rightarrow> result run option" where
  "channel_real_extract E channel_code =
     (let p = channel_seq_of E channel_code
      in case snd p of
           Inl e \<Rightarrow> Some (fst p, Inl e)
         | Inr ids \<Rightarrow>
             (case channel_pages E channel_code (fst ids) (snd ids) 1 None [] (fst p) of
                None \<Rightarrow> None
              | Some l \<Rightarrow>
                  Some (fst l,
                        case snd l of
                          Inl e \<Rightarrow> Inl e
                        | Inr ne \<Rightarrow> Inr (PlaylistResult (snd ne) channel_code (fst ne)))))"

subsection \<open>\<^verbatim>\<open>VLivePlaylistIE\<close>: a multi-camera playlist\<close>

definition to_screen :: "string \<Rightarrow> unit run" where
  "to_screen message = ([ToScreen message], Inr ())"

definition build_video_result :: "string \<Rightarrow> string \<Rightarrow> result run" where
  "build_video_result video_id message =
     bind (to_screen message)
       (\<lambda>_. ret (UrlResult (VIDEO_URL_TEMPLATE @ video_id) ie_key video_id))"

text \<open>
  \<^verbatim>\<open>VLivePlaylistIE._real_extract\<close>; \<open>video_id\<close> and \<open>playlist_id\<close> are the two
  groups matched in the URL. The search for the item ids has the default None, so a
  page without a match is no error; the search for the title is not fatal either.
\<close>

definition playlist_real_extract :: "env \<Rightarrow> string \<Rightarrow> string \<Rightarrow> result run" where
  "playlist_real_extract E video_id playlist_id =
     (if noplaylist E
      then build_video_result video_id
             (''Downloading just video '' @ video_id @ '' because of --no-playlist'')
      else bind (to_screen (''Downloading playlist '' @ playlist_id
                            @ '' - add --no-playlist to just download video''))
             (\<lambda>_. bind (download_webpage E (PlaylistPage video_id playlist_id))
                (\<lambda>webpage.
                   let raw_item_ids = re_search E PLAYLIST_SEQS_RE webpage
                   in if \<not> nonempty raw_item_ids
                      then build_video_result video_id
                             (''Downloading just video '' @ video_id @ '' because no playlist was found'')
                      else bind (parse_json E (the raw_item_ids) (Some playlist_id))
                             (\<lambda>item_ids.
                                bind (pure (py_iter item_ids))
                                  (\<lambda>items.
                                     ret (PlaylistResult
                                            (map (\<lambda>item_id.
                                                    UrlResult (VIDEO_URL_TEMPLATE @ py_str E item_id)
                                                      ie_key (py_str E item_id))
                                               items)
                                            playlist_id
                                            (re_search E PLAYLIST_TITLE_RE webpage)))))))"

section \<open>Notions of the specification\<close>

text \<open>
  The outcome of the extraction of one stream entry: its formats, or nothing when the
  entry has no address or the extraction of its manifest fails. The formats of the
  successful entries of a stream list, in the order of the list. An entry has an
  address when \<^verbatim>\<open>vid['serviceUrl']\<close> evaluates; the extraction it then causes is
  the call of \<^verbatim>\<open>_extract_m3u8_formats\<close> on its address and its stream name.
\<close>

definition entry_outcome :: "env \<Rightarrow> json \<Rightarrow> format list option" where
  "entry_outcome E vid =
     (case subscript vid ''serviceUrl'' of
        Inl e \<Rightarrow> None
      | Inr service_url \<Rightarrow>
          (case dict_get vid ''streamName'' JNull of
             Inl e \<Rightarrow> None
           | Inr stream_name \<Rightarrow> m3u8_formats E service_url stream_name))"

definition successful_formats :: "env \<Rightarrow> json list \<Rightarrow> format list" where
  "successful_formats E vids =
     concat (map (\<lambda>vid. the (entry_outcome E vid))
               (filter (\<lambda>vid. entry_outcome E vid \<noteq> None) vids))"

definition has_address :: "json \<Rightarrow> bool" where
  "has_address vid = (case subscript vid ''serviceUrl'' of Inl e \<Rightarrow> False | Inr service_url \<Rightarrow> True)"

definition extraction_of :: "json \<Rightarrow> event" where
  "extraction_of vid =
     ExtractM3U8Formats
       (case subscript vid ''serviceUrl'' of Inl e \<Rightarrow> JNull | Inr service_url \<Rightarrow> service_url)
       (case dict_get vid ''streamName'' JNull of Inl e \<Rightarrow> JNull | Inr stream_name \<Rightarrow> stream_name)"

text \<open>
  A page of a channel listing as it is fetched and decoded (nothing, when the fetch or
  the decoding fails), its video list (empty when absent or not a list), the
  \<^verbatim>\<open>videoSeq\<close> an item carries (None when absent), the link made for an
  item, and the links made for the items of a page: one for every item that carries
  a true \<^verbatim>\<open>videoSeq\<close>, in the order of the page.
\<close>

definition page_doc :: "env \<Rightarrow> string \<Rightarrow> json \<Rightarrow> nat \<Rightarrow> json option" where
  "page_doc E app_id channel_seq page_num =
     (case http E (ChannelVideoList app_id channel_seq page_num) of
        None \<Rightarrow> None
      | Some body \<Rightarrow> loads E body)"

definition page_videos :: "json \<Rightarrow> json list" where
  "page_videos video_list = list_items (try_get video_list [''result'', ''videoList''] is_list)"

fun is_dict :: "json \<Rightarrow> bool" where
  "is_dict (JObj kvs) = True"
| "is_dict _ = False"

definition video_seq :: "json \<Rightarrow> json" where
  "video_seq video = (case dict_get video ''videoSeq'' JNull of Inl e \<Rightarrow> JNull | Inr v \<Rightarrow> v)"

definition channel_entry :: "env \<Rightarrow> json \<Rightarrow> result" where
  "channel_entry E video =
     UrlResult (''http://www.vlive.tv/video/'' @ py_str E (video_seq video)) ''VLive''
       (py_str E (video_seq video))"

definition listed :: "env \<Rightarrow> json list \<Rightarrow> result list" where
  "listed E videos = map (channel_entry E) (filter (\<lambda>video. truthy (video_seq video)) videos)"

section \<open>Example runs\<close>

text \<open>
  Concrete environments on which the extractors are evaluated below. The decoder of
  the examples knows the JSON texts that occur in them and nothing else.
\<close>

definition state_text :: "string \<Rightarrow> string \<Rightarrow> string" where
  "state_text vid_type upcoming =
     ''{\"postDetail\":{\"post\":{\"title\":\"Show\",\"officialVideo\":{\"type\":\"'' @ vid_type
     @ ''\",\"upcomingYn\":'' @ upcoming
     @ '',\"vodId\":\"A1\",\"thumb\":\"t.jpg\"}}},\"channel\":{\"channel\":{\"channelName\":\"Band\"}}}''"

definition state_doc :: "string \<Rightarrow> bool \<Rightarrow> json" where
  "state_doc vid_type upcoming =
     JObj [(''postDetail'',
            JObj [(''post'',
                   JObj [(''title'', JStr ''Show''),
                         (''officialVideo'',
                          JObj [(''type'', JStr vid_type),
                                (''upcomingYn'', JBool upcoming),
                                (''vodId'', JStr ''A1''),
                                (''thumb'', JStr ''t.jpg'')])])]),
           (''channel'', JObj [(''channel'', JObj [(''channelName'', JStr ''Band'')])])]"

definition play_info_text :: string where
  "play_info_text =
     ''{\"result\":{\"streamList\":[{\"streamName\":\"720P\",\"serviceUrl\":\"http://cdn/720.m3u8\"},''
     @ ''{\"streamName\":\"480P\",\"serviceUrl\":\"http://cdn/480.m3u8\"},''
     @ ''{\"streamName\":\"360P\",\"serviceUrl\":\"http://cdn/360.m3u8\"}]}}''"

definition stream_entry :: "string \<Rightarrow> string \<Rightarrow> json" where
  "stream_entry name url = JObj [(''streamName'', JStr name), (''serviceUrl'', JStr url)]"

definition example_streams :: "json list" where
  "example_streams =
     [stream_entry ''720P'' ''http://cdn/720.m3u8'',
      stream_entry ''480P'' ''http://cdn/480.m3u8'',
      stream_entry ''360P'' ''http://cdn/360.m3u8'']"

definition play_info_doc :: json where
  "play_info_doc = JObj [(''result'', JObj [(''streamList'', JArr example_streams)])]"

definition example_loads :: "string \<Rightarrow> json option" where
  "example_loads =
     map_of
       ([(''{ }'', JObj []),
         (''{}'', JObj []),
         (''{\"inkey\":\"secret\"}'', JObj [(''inkey'', JStr ''secret'')]),
         (''{\"inkey\":\"\"}'', JObj [(''inkey'', JStr [])]),
         (''{\"message\":{\"login\":true}}'', JObj [(''message'', JObj [(''login'', JBool True)])]),
         (''{\"message\":{\"login\":false}}'', JObj [(''message'', JObj [(''login'', JBool False)])]),
         (play_info_text, play_info_doc),
         (state_text ''LIVE'' ''true'', state_doc ''LIVE'' True),
         (state_text ''LIVE'' ''false'', state_doc ''LIVE'' False)]
        @ map (\<lambda>t. (state_text t ''false'', state_doc t False))
            [''VOD'', ''LIVE_ON_AIR'', ''LIVE_END'', ''COMING_SOON'', ''UPCOMING'', ''CANCELED'',
             ''ONLY_APP'', ''PAUSED''])"

definition page_of :: "string \<Rightarrow> string" where
  "page_of text = ''<script>window.__PRELOADED_STATE__='' @ text @ ''</script>''"

text \<open>
  The formats of the example manifests: the 720P and 360P manifests hold one format
  each, the extraction of the 480P manifest fails.
\<close>

definition example_m3u8 :: "json \<Rightarrow> json \<Rightarrow> format list option" where
  "example_m3u8 url name =
     (if url = JStr ''http://cdn/720.m3u8'' then Some [[(''format_id'', name), (''height'', JInt 720)]]
      else if url = JStr ''http://cdn/360.m3u8'' then Some [[(''format_id'', name), (''height'', JInt 360)]]
      else None)"

fun height :: "format \<Rightarrow> int" where
  "height f = (case map_of f ''height'' of Some (JInt h) \<Rightarrow> h | _ \<Rightarrow> 0)"

text \<open>
  The environment of the extraction of video 1326 whose page embeds the state
  \<open>text\<close> and whose key endpoint answers \<open>key_body\<close>.
\<close>

definition video_env :: "string \<Rightarrow> string option \<Rightarrow> env" where
  "video_env text key_body =
     \<lparr>http = (\<lambda>r. if r = VideoPage ''1326'' then Some (page_of text)
                  else if r = Inkey ''1326'' then key_body
                  else if r = PlayInfo ''1326'' then Some play_info_text
                  else None),
      loads = example_loads,
      re_search = (\<lambda>p t. None),
      m3u8_formats = example_m3u8,
      video_info = (\<lambda>video_id long_video_id key. Inr [(''id'', JStr video_id)]),
      format_key = height,
      sort_error = (\<lambda>formats. None),
      py_repr = (\<lambda>v. ''...''),
      get_login_info = (None, None),
      noplaylist = False\<rparr>"

text \<open>
  Two further stream lists: in both the second entry carries no \<^verbatim>\<open>serviceUrl\<close>;
  in the longer one an entry with a working manifest follows it.
\<close>

definition lost_streams :: "json list" where
  "lost_streams =
     [stream_entry ''720P'' ''http://cdn/720.m3u8'',
      JObj [(''streamName'', JStr ''480P'')]]"

definition lost_play_info_text :: string where
  "lost_play_info_text =
     ''{\"result\":{\"streamList\":[{\"streamName\":\"720P\",\"serviceUrl\":\"http://cdn/720.m3u8\"},''
     @ ''{\"streamName\":\"480P\"}]}}''"

definition cut_streams :: "json list" where
  "cut_streams =
     [stream_entry ''720P'' ''http://cdn/720.m3u8'',
      JObj [(''streamName'', JStr ''480P'')],
      stream_entry ''360P'' ''http://cdn/360.m3u8'']"

definition cut_play_info_text :: string where
  "cut_play_info_text =
     ''{\"result\":{\"streamList\":[{\"streamName\":\"720P\",\"serviceUrl\":\"http://cdn/720.m3u8\"},''
     @ ''{\"streamName\":\"480P\"},''
     @ ''{\"streamName\":\"360P\",\"serviceUrl\":\"http://cdn/360.m3u8\"}]}}''"

text \<open>
  Manifests whose extraction always fails; a sorting helper that accepts every list and
  one that refuses the empty list.
\<close>

definition no_m3u8 :: "json \<Rightarrow> json \<Rightarrow> format list option" where
  "no_m3u8 url name = None"

definition accept_all :: "format list \<Rightarrow> error option" where
  "accept_all formats = None"

definition refuse_empty :: "format list \<Rightarrow> error option" where
  "refuse_empty formats =
     (if formats = [] then Some (ExtractorError ''No video formats found'' False) else None)"

text \<open>
  The environment of the live resolution of video 1326: the play info endpoint answers
  \<open>play_info\<close>, which decodes to an object whose stream list is \<open>streams\<close>.
\<close>

definition live_env ::
  "string \<Rightarrow> json list \<Rightarrow> (json \<Rightarrow> json \<Rightarrow> format list option) \<Rightarrow> (format list \<Rightarrow> error option) \<Rightarrow> env" where
  "live_env play_info streams m3u8 sort_err =
     \<lparr>http = (\<lambda>r. if r = PlayInfo ''1326'' then Some play_info else None),
      loads = (\<lambda>s. if s = play_info
                  then Some (JObj [(''result'', JObj [(''streamList'', JArr streams)])])
                  else None),
      re_search = (\<lambda>p t. None),
      m3u8_formats = m3u8,
      video_info = (\<lambda>video_id long_video_id key. Inr []),
      format_key = height,
      sort_error = sort_err,
      py_repr = (\<lambda>v. ''...''),
      get_login_info = (None, None),
      noplaylist = False\<rparr>"





text \<open>
  The environment of a login with the credentials \<open>credentials\<close>, to which the
  login info endpoint answers \<open>login_info\<close>.
\<close>

definition login_env :: "string option \<times> string option \<Rightarrow> string \<Rightarrow> env" where
  "login_env credentials login_info =
     \<lparr>http = (\<lambda>r. if r = LoginCookies then Some ''<form></form>''
                  else if r = LoginPost ''fan@example.com'' ''pw'' then Some ''<html></html>''
                  else if r = LoginInfo then Some login_info
                  else None),
      loads = example_loads,
      re_search = (\<lambda>p t. None),
      m3u8_formats = (\<lambda>url name. None),
      video_info = (\<lambda>video_id long_video_id key. Inr []),
      format_key = height,
      sort_error = (\<lambda>formats. None),
      py_repr = (\<lambda>v. ''...''),
      get_login_info = credentials,
      noplaylist = False\<rparr>"

text \<open>
  The environment of the playlist 22912 of video 22867, whose page holds no
  \<^verbatim>\<open>playlistVideoSeqs\<close>: no pattern matches in it.
\<close>

definition playlist_env :: env where
  "playlist_env =
     \<lparr>http = (\<lambda>r. if r = PlaylistPage ''22867'' ''22912'' then Some ''<html></html>'' else None),
      loads = example_loads,
      re_search = (\<lambda>p t. None),
      m3u8_formats = (\<lambda>url name. None),
      video_info = (\<lambda>video_id long_video_id key. Inr []),
      format_key = height,
      sort_error = (\<lambda>formats. None),
      py_repr = (\<lambda>v. ''...''),
      get_login_info = (None, None),
      noplaylist = False\<rparr>"

text \<open>
  A channel: the page of the channel FCD4B names no app.js, the channel code decodes
  to the sequence number 13, and the pages of the listing are \<open>pages\<close>, each given
  as its JSON text and the value the text decodes to.
\<close>

definition decode_text :: string where
  "decode_text = ''{\"result\":{\"channelSeq\":13}}''"

definition channel_env :: "(nat \<Rightarrow> string \<times> json) \<Rightarrow> env" where
  "channel_env pages =
     \<lparr>http = (\<lambda>r. case r of
                    ChannelPage c \<Rightarrow> if c = ''FCD4B'' then Some ''<html></html>'' else None
                  | DecodeChannelCode a c \<Rightarrow>
                      if a = APP_ID \<and> c = ''FCD4B'' then Some decode_text else None
                  | ChannelVideoList a s k \<Rightarrow>
                      if a = APP_ID \<and> s = JInt 13 then Some (fst (pages k)) else None
                  | _ \<Rightarrow> None),
      loads = (\<lambda>s. if s = decode_text then Some (JObj [(''result'', JObj [(''channelSeq'', JInt 13)])])
                  else if s = fst (pages 1) then Some (snd (pages 1))
                  else if s = fst (pages 2) then Some (snd (pages 2))
                  else if s = fst (pages 3) then Some (snd (pages 3))
                  else None),
      re_search = (\<lambda>p t. None),
      m3u8_formats = (\<lambda>url name. None),
      video_info = (\<lambda>video_id long_video_id key. Inr []),
      format_key = height,
      sort_error = (\<lambda>formats. None),
      py_repr = (\<lambda>v. ''...''),
      get_login_info = (None, None),
      noplaylist = False\<rparr>"






text \<open>
  A channel of one page of four items, of which the second carries no \<^verbatim>\<open>videoSeq\<close>
  and the third carries 0, followed by pages without a video list.
\<close>

definition mixed_items :: "json list" where
  "mixed_items =
     [JObj [(''videoSeq'', JInt 7)], JObj [], JObj [(''videoSeq'', JInt 0)],
      JObj [(''videoSeq'', JStr ''9'')]]"

definition mixed_pages :: "nat \<Rightarrow> string \<times> json" where
  "mixed_pages k =
     (if k = 1
      then (''{\"result\":{\"videoList\":[{\"videoSeq\":7},{},{\"videoSeq\":0},{\"videoSeq\":\"9\"}]}}'',
            JObj [(''result'', JObj [(''videoList'', JArr mixed_items)])])
      else (''{\"result\":{}}'', JObj [(''result'', JObj [])]))"

section \<open>Properties\<close>

subsection \<open>Runs\<close>

lemma bind_Inl [simp]: "bind (t, Inl e) f = (t, Inl e)"
  by (simp add: bind_def)

lemma bind_Inr [simp]: "bind (t, Inr x) f = (t @ fst (f x), snd (f x))"
  by (simp add: bind_def)

lemma bind_pure_Inl [simp]: "bind (pure (Inl e)) f = ([], Inl e)"
  by (simp add: pure_def)

lemma bind_pure_Inr [simp]: "bind (pure (Inr x)) f = f x"
  by (simp add: pure_def)

lemma bind_ret [simp]: "bind (ret x) f = f x"
  by (simp add: ret_def)

lemma fst_bind: "fst (bind m f) = (case snd m of Inl e \<Rightarrow> fst m | Inr x \<Rightarrow> fst m @ fst (f x))"
  by (simp add: bind_def split: sum.splits)

subsection \<open>The example environments, evaluated\<close>

lemma loads_key_secret:
  "example_loads ''{\"inkey\":\"secret\"}'' = Some (JObj [(''inkey'', JStr ''secret'')])"
  by (simp add: example_loads_def)

lemma state_doc_upcomingYn:
  "path (state_doc t u) [''postDetail'', ''post'', ''officialVideo'', ''upcomingYn''] = Inr (JBool u)"
  by (simp add: state_doc_def)

lemma state_doc_type:
  "path (state_doc t u) [''postDetail'', ''post'', ''officialVideo'', ''type''] = Inr (JStr t)"
  by (simp add: state_doc_def)

lemma http_video_page: "http (video_env text kb) (VideoPage ''1326'') = Some (page_of text)"
  by (simp add: video_env_def)

lemma http_inkey: "http (video_env text kb) (Inkey ''1326'') = kb"
  by (simp add: video_env_def)

lemma loads_video_env: "loads (video_env text kb) = example_loads"
  by (simp add: video_env_def)

lemma search_live_true:
  "search_preload_state (page_of (state_text ''LIVE'' ''true'')) = Some (state_text ''LIVE'' ''true'')"
  by (simp add: page_of_def state_text_def match_here_def PRELOAD_STATE_PREFIX_def PRELOAD_STATE_SUFFIX_def)

lemma search_live_end:
  "search_preload_state (page_of (state_text ''LIVE_END'' ''false'')) = Some (state_text ''LIVE_END'' ''false'')"
  by (simp add: page_of_def state_text_def match_here_def PRELOAD_STATE_PREFIX_def PRELOAD_STATE_SUFFIX_def)

lemma search_paused:
  "search_preload_state (page_of (state_text ''PAUSED'' ''false'')) = Some (state_text ''PAUSED'' ''false'')"
  by (simp add: page_of_def state_text_def match_here_def PRELOAD_STATE_PREFIX_def PRELOAD_STATE_SUFFIX_def)

lemma search_canceled:
  "search_preload_state (page_of (state_text ''CANCELED'' ''false'')) = Some (state_text ''CANCELED'' ''false'')"
  by (simp add: page_of_def state_text_def match_here_def PRELOAD_STATE_PREFIX_def PRELOAD_STATE_SUFFIX_def)

lemma search_vod:
  "search_preload_state (page_of (state_text ''VOD'' ''false'')) = Some (state_text ''VOD'' ''false'')"
  by (simp add: page_of_def state_text_def match_here_def PRELOAD_STATE_PREFIX_def PRELOAD_STATE_SUFFIX_def)

lemma loads_live_true:
  "loads (video_env text kb) (state_text ''LIVE'' ''true'') = Some (state_doc ''LIVE'' True)"
  by (simp add: loads_video_env example_loads_def state_text_def play_info_text_def)

lemma loads_live_end:
  "loads (video_env text kb) (state_text ''LIVE_END'' ''false'') = Some (state_doc ''LIVE_END'' False)"
  by (simp add: loads_video_env example_loads_def state_text_def play_info_text_def)

lemma loads_paused:
  "loads (video_env text kb) (state_text ''PAUSED'' ''false'') = Some (state_doc ''PAUSED'' False)"
  by (simp add: loads_video_env example_loads_def state_text_def play_info_text_def)

lemma loads_canceled:
  "loads (video_env text kb) (state_text ''CANCELED'' ''false'') = Some (state_doc ''CANCELED'' False)"
  by (simp add: loads_video_env example_loads_def state_text_def play_info_text_def)

lemma loads_vod:
  "loads (video_env text kb) (state_text ''VOD'' ''false'') = Some (state_doc ''VOD'' False)"
  by (simp add: loads_video_env example_loads_def state_text_def play_info_text_def)

lemma loads_key:
  "loads (video_env text kb) ''{\"inkey\":\"secret\"}'' = Some (JObj [(''inkey'', JStr ''secret'')])"
  by (simp add: loads_video_env example_loads_def)

lemma loads_key_empty:
  "loads (video_env text kb) ''{\"inkey\":\"\"}'' = Some (JObj [(''inkey'', JStr [])])"
  by (simp add: loads_video_env example_loads_def)

lemma loads_no_key:
  "loads (video_env text kb) ''{}'' = Some (JObj [])"
  by (simp add: loads_video_env example_loads_def)

lemma resolve_with_key:
  "t \<noteq> ''LIVE'' \<Longrightarrow>
   resolve_status (video_env text (Some ''{\"inkey\":\"secret\"}'')) ''1326'' (state_doc t u)
     = ([Fetch (Inkey ''1326'')], Inr (JStr t, Some (JStr ''secret'')))"
  by (simp add: resolve_status_def state_doc_def download_webpage_def parse_json_def
      http_inkey loads_video_env loads_key_secret ret_def)

lemma resolve_live_true:
  "resolve_status (video_env text kb) ''1326'' (state_doc ''LIVE'' True)
     = ([], Inr (JStr ''UPCOMING'', None))"
  by (simp add: resolve_status_def state_doc_def ret_def)

lemma common_fields_state_doc:
  "get_common_fields (state_doc t u)
   = Inr \<lparr>title = ''[V LIVE] Show'', creator = JStr ''Band'', thumbnail = JStr ''t.jpg''\<rparr>"
  by (simp add: get_common_fields_def state_doc_def)

lemma replay_state_doc:
  "replay (video_env text kb) ''1326'' (state_doc t u) key
   = ([ExtractVideoInfo ''1326'' (JStr ''A1'') key],
      Inr (ReplayVideo \<lparr>title = ''[V LIVE] Show'', creator = JStr ''Band'', thumbnail = JStr ''t.jpg''\<rparr>
             [(''id'', JStr ''1326'')]))"
  by (simp add: replay_def common_fields_state_doc extract_video_info_def ret_def)
     (simp add: state_doc_def video_env_def)






lemma stream_list_of:
  "dict_get (JObj [(''streamList'', JArr streams)]) ''streamList'' (JArr []) = Inr (JArr streams)"
  by simp

lemma example_streams_addressed: "\<forall>vid \<in> set example_streams. has_address vid"
  by (simp add: example_streams_def stream_entry_def has_address_def)

lemma example_streams_extractions:
  "map extraction_of example_streams
   = [ExtractM3U8Formats (JStr ''http://cdn/720.m3u8'') (JStr ''720P''),
      ExtractM3U8Formats (JStr ''http://cdn/480.m3u8'') (JStr ''480P''),
      ExtractM3U8Formats (JStr ''http://cdn/360.m3u8'') (JStr ''360P'')]"
  by (simp add: example_streams_def stream_entry_def extraction_of_def)

lemma successful_example_streams:
  "successful_formats (live_env t streams example_m3u8 se) example_streams
   = [[(''format_id'', JStr ''720P''), (''height'', JInt 720)],
      [(''format_id'', JStr ''360P''), (''height'', JInt 360)]]"
  by (simp add: successful_formats_def entry_outcome_def example_streams_def stream_entry_def
      live_env_def example_m3u8_def)

lemma no_example_stream:
  "\<forall>vid \<in> set example_streams. has_address vid \<and> entry_outcome (live_env t streams no_m3u8 se) vid = None"
  by (simp add: entry_outcome_def example_streams_def stream_entry_def live_env_def no_m3u8_def
      has_address_def)

lemma lost_streams_outcomes:
  "map (entry_outcome (live_env t streams example_m3u8 se)) lost_streams
   = [Some [[(''format_id'', JStr ''720P''), (''height'', JInt 720)]], None]"
  by (simp add: entry_outcome_def lost_streams_def stream_entry_def live_env_def example_m3u8_def)

lemma loads_logged_out:
  "example_loads ''{\"message\":{\"login\":false}}'' = Some (JObj [(''message'', JObj [(''login'', JBool False)])])"
  by (simp add: example_loads_def)

lemma loads_logged_in:
  "example_loads ''{\"message\":{\"login\":true}}'' = Some (JObj [(''message'', JObj [(''login'', JBool True)])])"
  by (simp add: example_loads_def)

lemma seq_of_channel:
  "channel_seq_of (channel_env pages) ''FCD4B''
   = ([Fetch (ChannelPage ''FCD4B''), Fetch (DecodeChannelCode APP_ID ''FCD4B'')],
      Inr (APP_ID, JInt 13))"
  by (simp add: channel_seq_of_def channel_env_def download_webpage_def download_json_def
      parse_json_def decode_text_def pure_def ret_def)




lemma mixed_pages_1:
  "page_doc (channel_env mixed_pages) APP_ID (JInt 13) 1
   = Some (JObj [(''result'', JObj [(''videoList'', JArr mixed_items)])])"
  by code_simp

lemma mixed_pages_2:
  "page_doc (channel_env mixed_pages) APP_ID (JInt 13) 2 = Some (JObj [(''result'', JObj [])])"
  by code_simp


subsection \<open>The shape of a single-video extraction\<close>

text \<open>
  Once the page is fetched and its state parsed, an extraction is the page fetch
  followed by the resolution of the status and the dispatch on it.
\<close>

lemma real_extract_parsed:
  assumes "http E (VideoPage video_id) = Some webpage"
    and "search_preload_state webpage = Some s"
    and "loads E s = Some preload_state"
  shows "real_extract E video_id
         = (Fetch (VideoPage video_id) #
              fst (bind (resolve_status E video_id preload_state)
                     (\<lambda>sk. dispatch E video_id preload_state (fst sk) (snd sk))),
            snd (bind (resolve_status E video_id preload_state)
                   (\<lambda>sk. dispatch E video_id preload_state (fst sk) (snd sk))))"
  using assms
  by (simp add: real_extract_def download_webpage_def parse_preload_state_def
      search_regex_fatal_def parse_json_def)

lemma real_extract_resolved:
  assumes "http E (VideoPage video_id) = Some webpage"
    and "search_preload_state webpage = Some s"
    and "loads E s = Some preload_state"
    and "resolve_status E video_id preload_state = (events, Inr (status, key))"
  shows "real_extract E video_id
         = (Fetch (VideoPage video_id) # events @ fst (dispatch E video_id preload_state status key),
            snd (dispatch E video_id preload_state status key))"
  using assms by (simp add: real_extract_parsed)

text \<open>
  The events of the two strategies: the key endpoint is never addressed after the
  status is resolved, and resolving the status addresses nothing else.
\<close>

lemma live_formats_no_fetch: "Fetch r \<notin> set (fst (live_formats E vids formats))"
proof (induction vids arbitrary: formats)
  case Nil
  then show ?case by (simp add: ret_def)
next
  case (Cons vid vids)
  then show ?case
    by (auto simp: fst_bind pure_def extract_m3u8_formats_def split: sum.splits)
qed

lemma live_no_inkey: "Fetch (Inkey w) \<notin> set (fst (live E video_id preload_state))"
  by (auto simp: live_def fst_bind pure_def download_webpage_def parse_json_def ret_def
      sort_formats_def live_formats_no_fetch split: sum.splits option.splits)

lemma replay_no_fetch: "Fetch r \<notin> set (fst (replay E video_id preload_state key))"
  by (auto simp: replay_def fst_bind pure_def extract_video_info_def ret_def split: sum.splits)

lemma dispatch_no_inkey: "Fetch (Inkey w) \<notin> set (fst (dispatch E video_id preload_state status key))"
  by (simp add: dispatch_def raise_def live_no_inkey replay_no_fetch split: option.splits)

lemma resolve_status_events:
  assumes "path preload_state [''postDetail'', ''post'', ''officialVideo'', ''upcomingYn''] = Inr upcoming"
    and "path preload_state [''postDetail'', ''post'', ''officialVideo'', ''type''] = Inr vid_type"
  shows "fst (resolve_status E video_id preload_state)
         = (if vid_type = JStr ''LIVE'' then [] else [Fetch (Inkey video_id)])"
  using assms
  by (auto simp: resolve_status_def fst_bind pure_def download_webpage_def parse_json_def ret_def
      split: sum.splits)

lemma resolve_status_events_le:
  "fst (resolve_status E video_id preload_state) = []
   \<or> fst (resolve_status E video_id preload_state) = [Fetch (Inkey video_id)]"
  by (auto simp: resolve_status_def fst_bind pure_def download_webpage_def parse_json_def ret_def
      split: sum.splits)

subsection \<open>The status of a video\<close>



subsection \<open>The terminal statuses\<close>

text \<open>
  Claim C8. Once the status is resolved and it is neither one of the live statuses nor
  one of the replay statuses, the extraction raises, with no further event: for
  LIVE_END the message that the replay is still being uploaded, for COMING_SOON and
  UPCOMING that the broadcast has not started, for CANCELED that it was canceled, for
  ONLY_APP that the video type is unsupported; for every other status the message is
  \<^verbatim>\<open>'Unknown status %s'\<close> with the status itself in it.
\<close>

theorem terminal_status_message:
  assumes "http E (VideoPage video_id) = Some webpage"
    and "search_preload_state webpage = Some s"
    and "loads E s = Some preload_state"
    and "resolve_status E video_id preload_state = (events, Inr (status, key))"
    and "status \<notin> {JStr ''LIVE_ON_AIR'', JStr ''BIG_EVENT_ON_AIR'', JStr ''LIVE'',
                    JStr ''VOD_ON_AIR'', JStr ''BIG_EVENT_INTRO'', JStr ''VOD''}"
  shows "real_extract E video_id
         = (Fetch (VideoPage video_id) # events,
            Inl (if status = JStr ''LIVE_END''
                 then ExtractorError ''Uploading for replay. Please wait...'' True
                 else if status = JStr ''COMING_SOON'' \<or> status = JStr ''UPCOMING''
                 then ExtractorError ''Coming soon!'' True
                 else if status = JStr ''CANCELED''
                 then ExtractorError ''We are sorry, but the live broadcast has been canceled.'' True
                 else if status = JStr ''ONLY_APP''
                 then ExtractorError ''Unsupported video type'' True
                 else ExtractorError (''Unknown status '' @ py_str E status) False))"
  using assms(5)
  by (simp add: real_extract_resolved [OF assms(1-4)] dispatch_def raise_def)

text \<open>The theorem at the statuses LIVE_END, UPCOMING and the unknown PAUSED.\<close>

theorem terminal_status_message_witness:
  "real_extract (video_env (state_text ''LIVE_END'' ''false'') (Some ''{\"inkey\":\"secret\"}'')) ''1326''
     = ([Fetch (VideoPage ''1326''), Fetch (Inkey ''1326'')],
        Inl (ExtractorError ''Uploading for replay. Please wait...'' True))
   \<and> real_extract (video_env (state_text ''LIVE'' ''true'') None) ''1326''
     = ([Fetch (VideoPage ''1326'')], Inl (ExtractorError ''Coming soon!'' True))
   \<and> real_extract (video_env (state_text ''PAUSED'' ''false'') (Some ''{\"inkey\":\"secret\"}'')) ''1326''
     = ([Fetch (VideoPage ''1326''), Fetch (Inkey ''1326'')],
        Inl (ExtractorError ''Unknown status PAUSED'' False))"
proof -
  have a: "JStr ''LIVE_END'' \<notin> {JStr ''LIVE_ON_AIR'', JStr ''BIG_EVENT_ON_AIR'', JStr ''LIVE'',
              JStr ''VOD_ON_AIR'', JStr ''BIG_EVENT_INTRO'', JStr ''VOD''}"
    by simp
  have b: "JStr ''UPCOMING'' \<notin> {JStr ''LIVE_ON_AIR'', JStr ''BIG_EVENT_ON_AIR'', JStr ''LIVE'',
              JStr ''VOD_ON_AIR'', JStr ''BIG_EVENT_INTRO'', JStr ''VOD''}"
    by simp
  have c: "JStr ''PAUSED'' \<notin> {JStr ''LIVE_ON_AIR'', JStr ''BIG_EVENT_ON_AIR'', JStr ''LIVE'',
              JStr ''VOD_ON_AIR'', JStr ''BIG_EVENT_INTRO'', JStr ''VOD''}"
    by simp
  have l: "''LIVE_END'' \<noteq> ''LIVE''" and p: "''PAUSED'' \<noteq> ''LIVE''"
    by simp_all
  show ?thesis
    using terminal_status_message [OF http_video_page search_live_end
          loads_live_end resolve_with_key [OF l] a]
      terminal_status_message [OF http_video_page search_live_true
          loads_live_true resolve_live_true b]
      terminal_status_message [OF http_video_page search_paused
          loads_paused resolve_with_key [OF p] c]
    by simp
qed

subsection \<open>When the key is fetched\<close>

text \<open>
  Claim C2 says that the key endpoint is fetched only on runs that go on to the Replay
  strategy, and never when the status is a terminal one. The source fetches the key
  in the \<^verbatim>\<open>else\<close> branch of the test \<^verbatim>\<open>vid_type == 'LIVE'\<close>, before it looks at
  the status: the page of a canceled broadcast is followed by a key fetch, and then by
  the error.
\<close>

theorem key_fetch_counterexample:
  "real_extract (video_env (state_text ''CANCELED'' ''false'') (Some ''{\"inkey\":\"secret\"}'')) ''1326''
   = ([Fetch (VideoPage ''1326''), Fetch (Inkey ''1326'')],
      Inl (ExtractorError ''We are sorry, but the live broadcast has been canceled.'' True))"
proof -
  have "''CANCELED'' \<noteq> ''LIVE''"
    by simp
  then show ?thesis
    by (simp add: real_extract_resolved [OF http_video_page search_canceled loads_canceled resolve_with_key]
        dispatch_def raise_def)
qed

text \<open>
  Claim C2, amended. An extraction fetches the key endpoint at most once. Once the
  page state is parsed and holds the two fields, the key is fetched exactly when
  \<^verbatim>\<open>officialVideo.type\<close> is not \<^verbatim>\<open>"LIVE"\<close>, whatever the status turns out to be;
  the fetch then follows the page fetch at once, before any format extraction, and is
  not repeated. For the type \<^verbatim>\<open>"LIVE"\<close> (status LIVE or UPCOMING) it never occurs.
\<close>

theorem key_fetch_by_type:
  "count_list (fst (real_extract E video_id)) (Fetch (Inkey video_id)) \<le> 1
   \<and> (http E (VideoPage video_id) = Some webpage
        \<and> search_preload_state webpage = Some s
        \<and> loads E s = Some preload_state
        \<and> path preload_state [''postDetail'', ''post'', ''officialVideo'', ''upcomingYn''] = Inr upcoming
        \<and> path preload_state [''postDetail'', ''post'', ''officialVideo'', ''type''] = Inr vid_type
      \<longrightarrow> (vid_type = JStr ''LIVE'' \<longrightarrow> Fetch (Inkey video_id) \<notin> set (fst (real_extract E video_id)))
        \<and> (vid_type \<noteq> JStr ''LIVE'' \<longrightarrow>
             (\<exists>rest. fst (real_extract E video_id)
                        = [Fetch (VideoPage video_id), Fetch (Inkey video_id)] @ rest
                     \<and> Fetch (Inkey video_id) \<notin> set rest)))"
proof (intro conjI impI)
  show "count_list (fst (real_extract E video_id)) (Fetch (Inkey video_id)) \<le> 1"
  proof (cases "http E (VideoPage video_id)")
    case None
    then show ?thesis
      by (simp add: real_extract_def download_webpage_def)
  next
    case (Some webpage)
    show ?thesis
    proof (cases "search_preload_state webpage")
      case None
      with Some show ?thesis
        by (simp add: real_extract_def download_webpage_def parse_preload_state_def
            search_regex_fatal_def)
    next
      case s: (Some s)
      show ?thesis
      proof (cases "loads E s")
        case None
        with Some s show ?thesis
          by (simp add: real_extract_def download_webpage_def parse_preload_state_def
              search_regex_fatal_def parse_json_def)
      next
        case ps: (Some preload_state)
        have "count_list (fst (dispatch E video_id preload_state st k)) (Fetch (Inkey video_id)) = 0" for st k
          by (simp add: dispatch_no_inkey)
        then show ?thesis
          using resolve_status_events_le [of E video_id preload_state]
          by (auto simp: real_extract_parsed [OF Some s ps] fst_bind split: sum.splits)
      qed
    qed
  qed
next
  assume a: "http E (VideoPage video_id) = Some webpage
        \<and> search_preload_state webpage = Some s
        \<and> loads E s = Some preload_state
        \<and> path preload_state [''postDetail'', ''post'', ''officialVideo'', ''upcomingYn''] = Inr upcoming
        \<and> path preload_state [''postDetail'', ''post'', ''officialVideo'', ''type''] = Inr vid_type"
  then have parsed: "fst (real_extract E video_id)
      = Fetch (VideoPage video_id) #
          fst (bind (resolve_status E video_id preload_state)
                 (\<lambda>sk. dispatch E video_id preload_state (fst sk) (snd sk)))"
    by (simp add: real_extract_parsed)
  have ev: "fst (resolve_status E video_id preload_state)
         = (if vid_type = JStr ''LIVE'' then [] else [Fetch (Inkey video_id)])"
    using a by (simp add: resolve_status_events)
  {
    assume "vid_type = JStr ''LIVE''"
    then show "Fetch (Inkey video_id) \<notin> set (fst (real_extract E video_id))"
      using ev by (auto simp: parsed fst_bind dispatch_no_inkey split: sum.splits)
  next
    assume "vid_type \<noteq> JStr ''LIVE''"
    then show "\<exists>rest. fst (real_extract E video_id)
                        = [Fetch (VideoPage video_id), Fetch (Inkey video_id)] @ rest
                     \<and> Fetch (Inkey video_id) \<notin> set rest"
      using ev by (auto simp: parsed fst_bind dispatch_no_inkey split: sum.splits)
  }
qed

text \<open>The theorem at a canceled broadcast and at an upcoming one.\<close>

theorem key_fetch_by_type_witness:
  "count_list (fst (real_extract (video_env (state_text ''CANCELED'' ''false'') (Some ''{\"inkey\":\"secret\"}'')) ''1326''))
     (Fetch (Inkey ''1326'')) \<le> 1
   \<and> (\<exists>rest. fst (real_extract (video_env (state_text ''CANCELED'' ''false'') (Some ''{\"inkey\":\"secret\"}'')) ''1326'')
                = [Fetch (VideoPage ''1326''), Fetch (Inkey ''1326'')] @ rest
              \<and> Fetch (Inkey ''1326'') \<notin> set rest)
   \<and> Fetch (Inkey ''1326'') \<notin> set (fst (real_extract (video_env (state_text ''LIVE'' ''true'') None) ''1326''))"
proof -
  have c: "http (video_env (state_text ''CANCELED'' ''false'') (Some ''{\"inkey\":\"secret\"}'')) (VideoPage ''1326'')
             = Some (page_of (state_text ''CANCELED'' ''false''))
         \<and> search_preload_state (page_of (state_text ''CANCELED'' ''false'')) = Some (state_text ''CANCELED'' ''false'')
         \<and> loads (video_env (state_text ''CANCELED'' ''false'') (Some ''{\"inkey\":\"secret\"}''))
               (state_text ''CANCELED'' ''false'') = Some (state_doc ''CANCELED'' False)
         \<and> path (state_doc ''CANCELED'' False) [''postDetail'', ''post'', ''officialVideo'', ''upcomingYn'']
             = Inr (JBool False)
         \<and> path (state_doc ''CANCELED'' False) [''postDetail'', ''post'', ''officialVideo'', ''type'']
             = Inr (JStr ''CANCELED'')"
    using http_video_page search_canceled loads_canceled state_doc_upcomingYn state_doc_type
    by blast
  have l: "http (video_env (state_text ''LIVE'' ''true'') None) (VideoPage ''1326'')
             = Some (page_of (state_text ''LIVE'' ''true''))
         \<and> search_preload_state (page_of (state_text ''LIVE'' ''true'')) = Some (state_text ''LIVE'' ''true'')
         \<and> loads (video_env (state_text ''LIVE'' ''true'') None)
               (state_text ''LIVE'' ''true'') = Some (state_doc ''LIVE'' True)
         \<and> path (state_doc ''LIVE'' True) [''postDetail'', ''post'', ''officialVideo'', ''upcomingYn'']
             = Inr (JBool True)
         \<and> path (state_doc ''LIVE'' True) [''postDetail'', ''post'', ''officialVideo'', ''type'']
             = Inr (JStr ''LIVE'')"
    using http_video_page search_live_true loads_live_true state_doc_upcomingYn state_doc_type
    by blast
  have n: "JStr ''CANCELED'' \<noteq> JStr ''LIVE''"
    by simp
  show ?thesis
    using key_fetch_by_type [where E = "video_env (state_text ''CANCELED'' ''false'') (Some ''{\"inkey\":\"secret\"}'')"
        and video_id = "''1326''" and webpage = "page_of (state_text ''CANCELED'' ''false'')"
        and s = "state_text ''CANCELED'' ''false''" and preload_state = "state_doc ''CANCELED'' False"
        and upcoming = "JBool False" and vid_type = "JStr ''CANCELED''"]
      key_fetch_by_type [where E = "video_env (state_text ''LIVE'' ''true'') None"
        and video_id = "''1326''" and webpage = "page_of (state_text ''LIVE'' ''true'')"
        and s = "state_text ''LIVE'' ''true''" and preload_state = "state_doc ''LIVE'' True"
        and upcoming = "JBool True" and vid_type = "JStr ''LIVE''"]
      c l n
    by blast
qed

subsection \<open>The key field\<close>

text \<open>
  Claim C4 says that Replay never proceeds without a non-empty key. The source reads
  \<^verbatim>\<open>['inkey']\<close> and hands the value on as it is: a response whose key is the empty
  string leads into \<^verbatim>\<open>_replay\<close> and to the format extraction with that key.
\<close>

theorem replay_empty_key_counterexample:
  "real_extract (video_env (state_text ''VOD'' ''false'') (Some ''{\"inkey\":\"\"}'')) ''1326''
   = ([Fetch (VideoPage ''1326''), Fetch (Inkey ''1326''), ExtractVideoInfo ''1326'' (JStr ''A1'') (JStr [])],
      Inr (ReplayVideo \<lparr>title = ''[V LIVE] Show'', creator = JStr ''Band'', thumbnail = JStr ''t.jpg''\<rparr>
             [(''id'', JStr ''1326'')]))"
proof -
  have "resolve_status (video_env (state_text ''VOD'' ''false'') (Some ''{\"inkey\":\"\"}'')) ''1326''
          (state_doc ''VOD'' False)
        = ([Fetch (Inkey ''1326'')], Inr (JStr ''VOD'', Some (JStr [])))"
    by (simp add: resolve_status_def state_doc_def download_webpage_def parse_json_def
        http_inkey loads_key_empty ret_def)
  then show ?thesis
    by (simp add: real_extract_resolved [OF http_video_page search_vod loads_vod]
        dispatch_def replay_state_doc)
qed

text \<open>
  Claim C4, amended. On a run that fetches the key (the type is not \<^verbatim>\<open>"LIVE"\<close>)
  and decodes the response: when the response has no \<^verbatim>\<open>inkey\<close> field, the
  extraction fails with the error of the missing field (KeyError for an object,
  TypeError for any other value) right after the key fetch, and the Replay strategy
  is not entered; when the field is there, its value is the key, unchecked, and for a
  type of the Replay group the run continues with \<^verbatim>\<open>_replay\<close> on that key.
\<close>

theorem replay_needs_key_field:
  assumes "http E (VideoPage video_id) = Some webpage"
    and "search_preload_state webpage = Some s"
    and "loads E s = Some preload_state"
    and "path preload_state [''postDetail'', ''post'', ''officialVideo'', ''upcomingYn''] = Inr upcoming"
    and "path preload_state [''postDetail'', ''post'', ''officialVideo'', ''type''] = Inr vid_type"
    and "vid_type \<noteq> JStr ''LIVE''"
    and "http E (Inkey video_id) = Some key_webpage"
    and "loads E key_webpage = Some key_json"
  shows "(case subscript key_json ''inkey'' of
            Inl e \<Rightarrow>
              real_extract E video_id
                = ([Fetch (VideoPage video_id), Fetch (Inkey video_id)], Inl e)
              \<and> (e = KeyError ''inkey'' \<or> e = TypeError)
          | Inr key \<Rightarrow>
              real_extract E video_id
                = ([Fetch (VideoPage video_id), Fetch (Inkey video_id)]
                     @ fst (dispatch E video_id preload_state vid_type (Some key)),
                   snd (dispatch E video_id preload_state vid_type (Some key)))
              \<and> (if vid_type \<in> {JStr ''VOD_ON_AIR'', JStr ''BIG_EVENT_INTRO'', JStr ''VOD''}
                  then dispatch E video_id preload_state vid_type (Some key)
                       = replay E video_id preload_state key
                  else Fetch (Inkey video_id) \<notin> set (fst (dispatch E video_id preload_state vid_type (Some key)))))"
proof (cases "subscript key_json ''inkey''")
  case (Inl e)
  have "e = KeyError ''inkey'' \<or> e = TypeError"
    using Inl by (cases key_json) (auto split: option.splits)
  moreover have "resolve_status E video_id preload_state = ([Fetch (Inkey video_id)], Inl e)"
    using assms(4-8) Inl
    by (simp add: resolve_status_def download_webpage_def parse_json_def)
  ultimately show ?thesis
    using Inl by (simp add: real_extract_parsed [OF assms(1-3)])
next
  case (Inr key)
  have "resolve_status E video_id preload_state = ([Fetch (Inkey video_id)], Inr (vid_type, Some key))"
    using assms(4-8) Inr
    by (simp add: resolve_status_def download_webpage_def parse_json_def ret_def)
  moreover have "dispatch E video_id preload_state vid_type (Some key) = replay E video_id preload_state key"
    if "vid_type \<in> {JStr ''VOD_ON_AIR'', JStr ''BIG_EVENT_INTRO'', JStr ''VOD''}"
    using that by (auto simp: dispatch_def)
  ultimately show ?thesis
    using Inr by (simp add: real_extract_parsed [OF assms(1-3)] dispatch_no_inkey)
qed

text \<open>
  The theorem at a VOD whose key response is the empty object, and at one whose
  response holds a key.
\<close>

theorem replay_needs_key_field_witness:
  "real_extract (video_env (state_text ''VOD'' ''false'') (Some ''{}'')) ''1326''
   = ([Fetch (VideoPage ''1326''), Fetch (Inkey ''1326'')], Inl (KeyError ''inkey''))
   \<and> real_extract (video_env (state_text ''VOD'' ''false'') (Some ''{\"inkey\":\"secret\"}'')) ''1326''
   = ([Fetch (VideoPage ''1326''), Fetch (Inkey ''1326''), ExtractVideoInfo ''1326'' (JStr ''A1'') (JStr ''secret'')],
      Inr (ReplayVideo \<lparr>title = ''[V LIVE] Show'', creator = JStr ''Band'', thumbnail = JStr ''t.jpg''\<rparr>
             [(''id'', JStr ''1326'')]))"
proof -
  have n: "JStr ''VOD'' \<noteq> JStr ''LIVE''"
    by simp
  show ?thesis
    using replay_needs_key_field [OF http_video_page search_vod loads_vod
          state_doc_upcomingYn state_doc_type n http_inkey loads_no_key]
      replay_needs_key_field [OF http_video_page search_vod loads_vod
          state_doc_upcomingYn state_doc_type n http_inkey loads_key]
    by (simp add: dispatch_def replay_state_doc)
qed

subsection \<open>The page state parser\<close>








subsection \<open>Live resolution\<close>

text \<open>
  The loop over the stream entries. While the entries carry an address it does not
  raise, whatever the extractions do: each entry causes one extraction, and the formats
  of the entries whose extraction succeeds are gathered in order. It ends at the first
  entry without an address, with the exception of the subscription; the formats
  gathered so far are dropped and the entries after it are not looked at.
\<close>

lemma live_formats_run:
  assumes "\<forall>vid \<in> set vids. has_address vid"
  shows "live_formats E vids formats
         = (map extraction_of vids, Inr (formats @ successful_formats E vids))"
  using assms
proof (induction vids arbitrary: formats)
  case Nil
  then show ?case by (simp add: ret_def successful_formats_def)
next
  case (Cons vid vids)
  from Cons.prems obtain url where u: "subscript vid ''serviceUrl'' = Inr url"
    by (auto simp: has_address_def split: sum.splits)
  then obtain kvs where v: "vid = JObj kvs"
    by (cases vid) auto
  have rest: "live_formats E vids fs
              = (map extraction_of vids, Inr (fs @ successful_formats E vids))" for fs
    using Cons by simp
  show ?case
    using u v rest
    by (auto simp: extract_m3u8_formats_def entry_outcome_def successful_formats_def
        extraction_of_def bind_def pure_def split: option.splits)
qed

lemma live_formats_stop:
  assumes "\<forall>vid \<in> set good. has_address vid" and "subscript bad ''serviceUrl'' = Inl e"
  shows "live_formats E (good @ bad # rest) formats = (map extraction_of good, Inl e)"
  using assms
proof (induction good arbitrary: formats)
  case Nil
  then show ?case by (simp add: bind_def pure_def)
next
  case (Cons vid good)
  from Cons.prems obtain url where u: "subscript vid ''serviceUrl'' = Inr url"
    by (auto simp: has_address_def split: sum.splits)
  then obtain kvs where v: "vid = JObj kvs"
    by (cases vid) auto
  have later: "live_formats E (good @ bad # rest) fs = (map extraction_of good, Inl e)" for fs
    using Cons by simp
  show ?case
    using u v later
    by (auto simp: extract_m3u8_formats_def extraction_of_def bind_def pure_def
        split: option.splits)
qed

lemma no_successful_formats:
  assumes "\<forall>vid \<in> set vids. entry_outcome E vid = None"
  shows "successful_formats E vids = []"
  using assms by (simp add: successful_formats_def filter_empty_conv[THEN iffD2])

text \<open>
  \<^verbatim>\<open>_live\<close> from the stream list on: the play info is fetched and decoded, and the
  outcome of the loop decides.
\<close>

lemma live_run:
  assumes "http E (PlayInfo video_id) = Some live_webpage"
    and "loads E live_webpage = Some live_json"
    and "subscript live_json ''result'' = Inr result"
    and "dict_get result ''streamList'' (JArr []) = Inr (JArr vids)"
    and "get_common_fields preload_state = Inr info"
  shows "live E video_id preload_state
         = (Fetch (PlayInfo video_id) # fst (live_formats E vids []),
            case snd (live_formats E vids []) of
              Inl e \<Rightarrow> Inl e
            | Inr formats \<Rightarrow>
                (case sort_error E formats of
                   Some e \<Rightarrow> Inl e
                 | None \<Rightarrow> Inr (LiveVideo info video_id (sort_key (format_key E) formats) True)))"
  using assms
  by (simp add: live_def download_webpage_def parse_json_def sort_formats_def bind_def pure_def
      ret_def split: sum.splits option.splits)

text \<open>
  Claim C3 says that the failure of single stream entries never makes the live
  resolution raise. The source reads \<^verbatim>\<open>vid['serviceUrl']\<close> outside of any handler
  (line 173): of the two entries of \<open>lost_streams\<close> the first is extracted with
  success and the second fails for want of a \<^verbatim>\<open>serviceUrl\<close>, and on account of
  that entry alone (the play info is there, the common fields are there, the sorting
  helper accepts every list) \<^verbatim>\<open>_live\<close> raises KeyError instead of returning
  the format of the first entry.
\<close>

theorem entry_without_address_counterexample:
  "map (entry_outcome (live_env lost_play_info_text lost_streams example_m3u8 accept_all)) lost_streams
     = [Some [[(''format_id'', JStr ''720P''), (''height'', JInt 720)]], None]
   \<and> live (live_env lost_play_info_text lost_streams example_m3u8 accept_all) ''1326''
        (state_doc ''LIVE'' False)
     = ([Fetch (PlayInfo ''1326''), ExtractM3U8Formats (JStr ''http://cdn/720.m3u8'') (JStr ''720P'')],
        Inl (KeyError ''serviceUrl''))"
  by (simp add: lost_streams_outcomes)
     (simp add: live_def live_env_def lost_streams_def stream_entry_def example_m3u8_def
       download_webpage_def parse_json_def extract_m3u8_formats_def bind_def pure_def ret_def)

text \<open>
  Claim C3, amended. Let the play info be fetched and decoded, let its stream list
  hold \<open>N\<close> entries, and let the common fields be there.

  When every entry carries its \<^verbatim>\<open>serviceUrl\<close>, the failures of the extractions never
  make \<^verbatim>\<open>_live\<close> raise: every entry is extracted, and exactly the formats of the
  successful entries, in the order of the entries, are handed to the sorting helper.
  Unless that helper raises, the descriptor is returned with these formats, sorted (as
  a multiset, exactly those). When all the extractions fail the helper is handed the
  empty list, and the descriptor is returned with the empty list of formats unless
  the helper refuses the empty list.

  An entry without \<^verbatim>\<open>serviceUrl\<close> is not skipped: \<^verbatim>\<open>_live\<close> raises the
  exception of the subscription at the first such entry, after the extractions of the
  entries before it, and no descriptor is returned.
\<close>

theorem live_soft_failure:
  assumes "http E (PlayInfo video_id) = Some live_webpage"
    and "loads E live_webpage = Some live_json"
    and "subscript live_json ''result'' = Inr result"
    and "dict_get result ''streamList'' (JArr []) = Inr (JArr vids)"
    and "get_common_fields preload_state = Inr info"
  shows "((\<forall>vid \<in> set vids. has_address vid) \<longrightarrow>
            live E video_id preload_state
              = (Fetch (PlayInfo video_id) # map extraction_of vids,
                 case sort_error E (successful_formats E vids) of
                   Some e \<Rightarrow> Inl e
                 | None \<Rightarrow>
                     Inr (LiveVideo info video_id
                            (sort_key (format_key E) (successful_formats E vids)) True))
            \<and> mset (sort_key (format_key E) (successful_formats E vids))
                = mset (successful_formats E vids))
       \<and> ((\<forall>vid \<in> set vids. has_address vid \<and> entry_outcome E vid = None) \<longrightarrow>
            snd (live E video_id preload_state)
              = (case sort_error E [] of
                   Some e \<Rightarrow> Inl e
                 | None \<Rightarrow> Inr (LiveVideo info video_id [] True)))
       \<and> (\<forall>good bad rest e.
             vids = good @ bad # rest \<and> (\<forall>vid \<in> set good. has_address vid)
               \<and> subscript bad ''serviceUrl'' = Inl e \<longrightarrow>
             live E video_id preload_state
               = (Fetch (PlayInfo video_id) # map extraction_of good, Inl e))"
proof -
  note run = live_run [OF assms]
  have a: "live E video_id preload_state
             = (Fetch (PlayInfo video_id) # map extraction_of vids,
                case sort_error E (successful_formats E vids) of
                  Some e \<Rightarrow> Inl e
                | None \<Rightarrow>
                    Inr (LiveVideo info video_id
                           (sort_key (format_key E) (successful_formats E vids)) True))"
    if "\<forall>vid \<in> set vids. has_address vid"
    using run live_formats_run [OF that, of E "[]"] by simp
  have b: "snd (live E video_id preload_state)
             = (case sort_error E [] of
                  Some e \<Rightarrow> Inl e
                | None \<Rightarrow> Inr (LiveVideo info video_id [] True))"
    if "\<forall>vid \<in> set vids. has_address vid \<and> entry_outcome E vid = None"
  proof -
    from that have "successful_formats E vids = []"
      by (simp add: no_successful_formats)
    with a that show ?thesis by (simp split: option.splits)
  qed
  have c: "live E video_id preload_state = (Fetch (PlayInfo video_id) # map extraction_of good, Inl e)"
    if "vids = good @ bad # rest" and "\<forall>vid \<in> set good. has_address vid"
      and "subscript bad ''serviceUrl'' = Inl e" for good bad rest e
    using run live_formats_stop [OF that(2,3), of E rest "[]"] that(1) by simp
  have d: "mset (sort_key (format_key E) (successful_formats E vids))
             = mset (successful_formats E vids)"
    by simp
  show ?thesis
  proof (intro conjI impI allI)
    assume "\<forall>vid \<in> set vids. has_address vid"
    then show "live E video_id preload_state
                 = (Fetch (PlayInfo video_id) # map extraction_of vids,
                    case sort_error E (successful_formats E vids) of
                      Some e \<Rightarrow> Inl e
                    | None \<Rightarrow>
                        Inr (LiveVideo info video_id
                               (sort_key (format_key E) (successful_formats E vids)) True))"
      by (rule a)
  next
    show "mset (sort_key (format_key E) (successful_formats E vids))
            = mset (successful_formats E vids)"
      by (rule d)
  next
    assume "\<forall>vid \<in> set vids. has_address vid \<and> entry_outcome E vid = None"
    then show "snd (live E video_id preload_state)
                 = (case sort_error E [] of
                      Some e \<Rightarrow> Inl e
                    | None \<Rightarrow> Inr (LiveVideo info video_id [] True))"
      by (rule b)
  next
    fix good bad rest e
    assume "vids = good @ bad # rest \<and> (\<forall>vid \<in> set good. has_address vid)
              \<and> subscript bad ''serviceUrl'' = Inl e"
    then show "live E video_id preload_state
                 = (Fetch (PlayInfo video_id) # map extraction_of good, Inl e)"
      using c by blast
  qed
qed

text \<open>
  The theorem at a stream list of three entries of which the second fails; at the same
  list when all three fail, under a sorting helper that accepts every list and under
  one that refuses the empty list; and at a list whose second entry has no address.
\<close>

theorem live_soft_failure_witness:
  "live (live_env play_info_text example_streams example_m3u8 accept_all) ''1326'' (state_doc ''LIVE'' False)
     = ([Fetch (PlayInfo ''1326''),
         ExtractM3U8Formats (JStr ''http://cdn/720.m3u8'') (JStr ''720P''),
         ExtractM3U8Formats (JStr ''http://cdn/480.m3u8'') (JStr ''480P''),
         ExtractM3U8Formats (JStr ''http://cdn/360.m3u8'') (JStr ''360P'')],
        Inr (LiveVideo \<lparr>title = ''[V LIVE] Show'', creator = JStr ''Band'', thumbnail = JStr ''t.jpg''\<rparr>
               ''1326''
               [[(''format_id'', JStr ''360P''), (''height'', JInt 360)],
                [(''format_id'', JStr ''720P''), (''height'', JInt 720)]]
               True))
   \<and> snd (live (live_env play_info_text example_streams no_m3u8 accept_all) ''1326''
             (state_doc ''LIVE'' False))
     = Inr (LiveVideo \<lparr>title = ''[V LIVE] Show'', creator = JStr ''Band'', thumbnail = JStr ''t.jpg''\<rparr>
              ''1326'' [] True)
   \<and> snd (live (live_env play_info_text example_streams no_m3u8 refuse_empty) ''1326''
             (state_doc ''LIVE'' False))
     = Inl (ExtractorError ''No video formats found'' False)
   \<and> live (live_env cut_play_info_text cut_streams example_m3u8 accept_all) ''1326''
        (state_doc ''LIVE'' False)
     = ([Fetch (PlayInfo ''1326''), ExtractM3U8Formats (JStr ''http://cdn/720.m3u8'') (JStr ''720P'')],
        Inl (KeyError ''serviceUrl''))"
proof -
  have h: "http (live_env t streams m se) (PlayInfo ''1326'') = Some t"
    and l: "loads (live_env t streams m se) t
            = Some (JObj [(''result'', JObj [(''streamList'', JArr streams)])])"
    and r: "subscript (JObj [(''result'', JObj [(''streamList'', JArr streams)])]) ''result''
            = Inr (JObj [(''streamList'', JArr streams)])"
    and k: "format_key (live_env t streams m se) = height"
    and s: "sort_error (live_env t streams m se) = se"
    for t streams m se
    by (simp_all add: live_env_def)
  note c = common_fields_state_doc [of "''LIVE''" False]
  have first: "live (live_env play_info_text example_streams example_m3u8 accept_all) ''1326''
                 (state_doc ''LIVE'' False)
               = ([Fetch (PlayInfo ''1326''),
                   ExtractM3U8Formats (JStr ''http://cdn/720.m3u8'') (JStr ''720P''),
                   ExtractM3U8Formats (JStr ''http://cdn/480.m3u8'') (JStr ''480P''),
                   ExtractM3U8Formats (JStr ''http://cdn/360.m3u8'') (JStr ''360P'')],
                  Inr (LiveVideo \<lparr>title = ''[V LIVE] Show'', creator = JStr ''Band'', thumbnail = JStr ''t.jpg''\<rparr>
                         ''1326''
                         [[(''format_id'', JStr ''360P''), (''height'', JInt 360)],
                          [(''format_id'', JStr ''720P''), (''height'', JInt 720)]]
                         True))"
    using live_soft_failure [OF h [of play_info_text example_streams example_m3u8 accept_all] l r stream_list_of c, THEN conjunct1]
      example_streams_addressed
    by (simp add: successful_example_streams example_streams_extractions k s accept_all_def)
  have second: "snd (live (live_env play_info_text example_streams no_m3u8 accept_all) ''1326''
                       (state_doc ''LIVE'' False))
                = Inr (LiveVideo \<lparr>title = ''[V LIVE] Show'', creator = JStr ''Band'', thumbnail = JStr ''t.jpg''\<rparr>
                         ''1326'' [] True)"
    using live_soft_failure [OF h [of play_info_text example_streams no_m3u8 accept_all] l r stream_list_of c, THEN conjunct2, THEN conjunct1]
      no_example_stream [of play_info_text example_streams accept_all]
    by (simp add: s accept_all_def)
  have third: "snd (live (live_env play_info_text example_streams no_m3u8 refuse_empty) ''1326''
                      (state_doc ''LIVE'' False))
               = Inl (ExtractorError ''No video formats found'' False)"
    using live_soft_failure [OF h [of play_info_text example_streams no_m3u8 refuse_empty] l r stream_list_of c, THEN conjunct2, THEN conjunct1]
      no_example_stream [of play_info_text example_streams refuse_empty]
    by (simp add: s refuse_empty_def)
  have fourth: "live (live_env cut_play_info_text cut_streams example_m3u8 accept_all) ''1326''
                  (state_doc ''LIVE'' False)
                = ([Fetch (PlayInfo ''1326''), ExtractM3U8Formats (JStr ''http://cdn/720.m3u8'') (JStr ''720P'')],
                   Inl (KeyError ''serviceUrl''))"
    using live_soft_failure [OF h [of cut_play_info_text cut_streams example_m3u8 accept_all] l r stream_list_of c, THEN conjunct2, THEN conjunct2,
        rule_format, of "[stream_entry ''720P'' ''http://cdn/720.m3u8'']"
          "JObj [(''streamName'', JStr ''480P'')]" "[stream_entry ''360P'' ''http://cdn/360.m3u8'']"
          "KeyError ''serviceUrl''"]
    by (simp add: cut_streams_def stream_entry_def has_address_def extraction_of_def)
  show ?thesis
    using first second third fourth by simp
qed

subsection \<open>Login\<close>

text \<open>
  The verification step: one fetch of the login info; the session counts as logged in
  exactly when \<^verbatim>\<open>message.login\<close> is the boolean true.
\<close>

lemma is_logged_in_run:
  "is_logged_in E
   = ([Fetch LoginInfo],
      case http E LoginInfo of
        None \<Rightarrow> Inl (DownloadError LoginInfo)
      | Some body \<Rightarrow>
          (case loads E body of
             None \<Rightarrow> Inl (JSONError None)
           | Some login_info \<Rightarrow>
               Inr (try_get login_info [''message'', ''login''] is_bool = Some (JBool True))))"
proof -
  have "truthy_opt (try_get v ks is_bool) = (try_get v ks is_bool = Some (JBool True))" for v ks
  proof (cases "path v ks")
    case (Inl e)
    then show ?thesis by (simp add: try_get_def)
  next
    case (Inr x)
    then show ?thesis by (cases x) (simp_all add: try_get_def)
  qed
  then show ?thesis
    by (simp add: is_logged_in_def download_json_def download_webpage_def parse_json_def
        pure_def ret_def bind_def split: option.splits)
qed

text \<open>
  Claim C10. When the email or the password is absent, \<^verbatim>\<open>_login\<close> returns at once:
  no event, no error. When both are present it attempts the login (its first event is
  the fetch of the login page), and it raises \<^verbatim>\<open>Unable to log in\<close> exactly when the
  two login requests went through and the login info, fetched and decoded, does not
  report the session as logged in.
\<close>

theorem login_steps:
  "(fst (get_login_info E) = None \<or> snd (get_login_info E) = None \<longrightarrow> login E = ([], Inr ()))
   \<and> (fst (get_login_info E) = Some email \<and> snd (get_login_info E) = Some password \<longrightarrow>
        (\<exists>rest. fst (login E) = Fetch LoginCookies # rest)
        \<and> (snd (login E) = Inl (ExtractorError ''Unable to log in'' True)
             \<longleftrightarrow> http E LoginCookies \<noteq> None
                 \<and> http E (LoginPost email password) \<noteq> None
                 \<and> (\<exists>body login_info.
                       http E LoginInfo = Some body \<and> loads E body = Some login_info
                       \<and> try_get login_info [''message'', ''login''] is_bool \<noteq> Some (JBool True))))"
proof (intro conjI impI)
  assume "fst (get_login_info E) = None \<or> snd (get_login_info E) = None"
  then show "login E = ([], Inr ())"
    by (auto simp: login_def ret_def Let_def)
next
  assume c: "fst (get_login_info E) = Some email \<and> snd (get_login_info E) = Some password"
  then show "\<exists>rest. fst (login E) = Fetch LoginCookies # rest"
    by (auto simp: login_def Let_def download_webpage_def fst_bind split: sum.splits option.splits)
  from c show "snd (login E) = Inl (ExtractorError ''Unable to log in'' True)
             \<longleftrightarrow> http E LoginCookies \<noteq> None
                 \<and> http E (LoginPost email password) \<noteq> None
                 \<and> (\<exists>body login_info.
                       http E LoginInfo = Some body \<and> loads E body = Some login_info
                       \<and> try_get login_info [''message'', ''login''] is_bool \<noteq> Some (JBool True))"
    by (auto simp: login_def Let_def download_webpage_def is_logged_in_run raise_def ret_def
        split: option.splits)
qed

text \<open>
  The theorem without an email, with credentials that the site rejects, and with
  credentials that it accepts.
\<close>

theorem login_steps_witness:
  "login (login_env (None, Some ''pw'') ''{\"message\":{\"login\":false}}'') = ([], Inr ())
   \<and> login (login_env (Some ''fan@example.com'', Some ''pw'') ''{\"message\":{\"login\":false}}'')
       = ([Fetch LoginCookies, Fetch (LoginPost ''fan@example.com'' ''pw''), Fetch LoginInfo],
          Inl (ExtractorError ''Unable to log in'' True))
   \<and> login (login_env (Some ''fan@example.com'', Some ''pw'') ''{\"message\":{\"login\":true}}'')
       = ([Fetch LoginCookies, Fetch (LoginPost ''fan@example.com'' ''pw''), Fetch LoginInfo], Inr ())"
  using login_steps [of "login_env (None, Some ''pw'') ''{\"message\":{\"login\":false}}''"
      "''fan@example.com''" "''pw''"]
    login_steps [of "login_env (Some ''fan@example.com'', Some ''pw'') ''{\"message\":{\"login\":false}}''"
      "''fan@example.com''" "''pw''"]
    login_steps [of "login_env (Some ''fan@example.com'', Some ''pw'') ''{\"message\":{\"login\":true}}''"
      "''fan@example.com''" "''pw''"]
  by (simp add: login_def login_env_def download_webpage_def is_logged_in_run loads_logged_out
      loads_logged_in try_get_def raise_def ret_def)

subsection \<open>A playlist without items\<close>

text \<open>
  Claim C5. When the whole playlist is asked for, the page is fetched and the search
  for \<^verbatim>\<open>playlistVideoSeqs\<close> finds nothing in it, the extraction returns one result:
  the link to the video whose id is in the URL, for \<^verbatim>\<open>VLiveIE\<close>, and no playlist.
\<close>

theorem playlist_without_items:
  assumes "\<not> noplaylist E"
    and "http E (PlaylistPage video_id playlist_id) = Some webpage"
    and "\<not> nonempty (re_search E PLAYLIST_SEQS_RE webpage)"
  shows "playlist_real_extract E video_id playlist_id
         = ([ToScreen (''Downloading playlist '' @ playlist_id
                       @ '' - add --no-playlist to just download video''),
             Fetch (PlaylistPage video_id playlist_id),
             ToScreen (''Downloading just video '' @ video_id @ '' because no playlist was found'')],
            Inr (UrlResult (''http://www.vlive.tv/video/'' @ video_id) ''VLive'' video_id))"
  using assms
  by (simp add: playlist_real_extract_def to_screen_def download_webpage_def build_video_result_def
      ret_def VIDEO_URL_TEMPLATE_def ie_key_def)

text \<open>The theorem at the playlist 22912 of video 22867.\<close>

theorem playlist_without_items_witness:
  "playlist_real_extract playlist_env ''22867'' ''22912''
   = ([ToScreen ''Downloading playlist 22912 - add --no-playlist to just download video'',
       Fetch (PlaylistPage ''22867'' ''22912''),
       ToScreen ''Downloading just video 22867 because no playlist was found''],
      Inr (UrlResult ''http://www.vlive.tv/video/22867'' ''VLive'' ''22867''))"
  using playlist_without_items [of playlist_env "''22867''" "''22912''" "''<html></html>''"]
  by (simp add: playlist_env_def)

subsection \<open>The channel listing\<close>

text \<open>
  The inner loop over a page whose items are all objects: it appends the links of the
  items that carry a true \<^verbatim>\<open>videoSeq\<close> and passes over the others.
\<close>

lemma channel_entries_run:
  assumes "\<forall>video \<in> set videos. is_dict video"
  shows "channel_entries E videos entries = Inr (entries @ listed E videos)"
  using assms
proof (induction videos arbitrary: entries)
  case Nil
  then show ?case by (simp add: listed_def)
next
  case (Cons video videos)
  then obtain kvs where "video = JObj kvs"
    by (cases video) auto
  with Cons show ?case
    by (simp add: listed_def video_seq_def channel_entry_def VIDEO_URL_TEMPLATE_def ie_key_def)
qed

lemma truthy_videos: "truthy_opt (try_get d ks is_list) \<longleftrightarrow> list_items (try_get d ks is_list) \<noteq> []"
proof (cases "path d ks")
  case (Inl e)
  then show ?thesis by (simp add: try_get_def)
next
  case (Inr x)
  then show ?thesis by (cases x) (simp_all add: try_get_def)
qed

lemma download_page:
  "download_json E (ChannelVideoList a s k) (Some code)
   = ([Fetch (ChannelVideoList a s k)],
      case http E (ChannelVideoList a s k) of
        None \<Rightarrow> Inl (DownloadError (ChannelVideoList a s k))
      | Some body \<Rightarrow> (case loads E body of None \<Rightarrow> Inl (JSONError (Some code)) | Some d \<Rightarrow> Inr d))"
  by (simp add: download_json_def download_webpage_def parse_json_def pure_def bind_def
      split: option.splits)

text \<open>
  One turn of the outer loop: on a page without videos it ends; on a page with videos
  it goes on to the next page.
\<close>

lemma channel_pages_last:
  assumes "page_doc E a s n = Some final" and "page_videos final = []"
  shows "\<exists>name. channel_pages E code a s n nm acc ev
           = Some (ev @ [Fetch (ChannelVideoList a s n)], Inr (name, acc))"
  using assms
  by (subst channel_pages.simps)
     (auto simp: download_page page_doc_def page_videos_def truthy_videos Let_def
       split: option.splits)

lemma channel_pages_step:
  assumes "page_doc E a s p = Some doc" and "page_videos doc \<noteq> []"
    and "\<forall>v \<in> set (page_videos doc). is_dict v"
  shows "\<exists>name. channel_pages E code a s p nm acc ev
           = channel_pages E code a s (Suc p) name (acc @ listed E (page_videos doc))
               (ev @ [Fetch (ChannelVideoList a s p)])"
  using assms
  by (subst channel_pages.simps)
     (auto simp: download_page page_doc_def page_videos_def truthy_videos Let_def
       channel_entries_run split: option.splits)

text \<open>
  The whole loop, from page \<open>p\<close> on, when page \<open>n\<close> is the first without videos:
  it fetches the pages \<open>p\<close> to \<open>n\<close> and no other, and gathers the links page by page.
\<close>

lemma channel_pages_run:
  assumes "\<forall>k. p \<le> k \<and> k < n \<longrightarrow>
             (\<exists>doc. page_doc E a s k = Some doc \<and> page_videos doc \<noteq> []
                    \<and> (\<forall>v \<in> set (page_videos doc). is_dict v))"
    and "page_doc E a s n = Some final" and "page_videos final = []" and "p \<le> n"
  shows "\<exists>name. channel_pages E code a s p nm acc ev
           = Some (ev @ map (\<lambda>k. Fetch (ChannelVideoList a s k)) [p..<Suc n],
                   Inr (name,
                        acc @ concat (map (\<lambda>k. listed E (page_videos (the (page_doc E a s k)))) [p..<n])))"
  using assms
proof (induction "n - p" arbitrary: p nm acc ev)
  case 0
  then have "p = n" by simp
  with channel_pages_last [OF "0.prems"(2,3), of code nm acc ev] show ?case
    by simp
next
  case (Suc d)
  then have lt: "p < n" by simp
  with Suc.prems(1) obtain doc where doc: "page_doc E a s p = Some doc" "page_videos doc \<noteq> []"
      "\<forall>v \<in> set (page_videos doc). is_dict v"
    by auto
  from channel_pages_step [OF doc, of code nm acc ev] obtain name where
    step: "channel_pages E code a s p nm acc ev
           = channel_pages E code a s (Suc p) name (acc @ listed E (page_videos doc))
               (ev @ [Fetch (ChannelVideoList a s p)])"
    by blast
  have "d = n - Suc p" using Suc.hyps(2) by simp
  moreover have "\<forall>k. Suc p \<le> k \<and> k < n \<longrightarrow>
             (\<exists>doc. page_doc E a s k = Some doc \<and> page_videos doc \<noteq> []
                    \<and> (\<forall>v \<in> set (page_videos doc). is_dict v))"
    using Suc.prems(1) by auto
  moreover have "Suc p \<le> n" using lt by simp
  ultimately obtain name' where
    "channel_pages E code a s (Suc p) name (acc @ listed E (page_videos doc))
               (ev @ [Fetch (ChannelVideoList a s p)])
     = Some ((ev @ [Fetch (ChannelVideoList a s p)])
               @ map (\<lambda>k. Fetch (ChannelVideoList a s k)) [Suc p..<Suc n],
             Inr (name',
                  (acc @ listed E (page_videos doc))
                    @ concat (map (\<lambda>k. listed E (page_videos (the (page_doc E a s k)))) [Suc p..<n])))"
    using Suc.hyps(1) [of "Suc p" name "acc @ listed E (page_videos doc)" "ev @ [Fetch (ChannelVideoList a s p)]"]
      Suc.prems(2,3)
    by blast
  with step doc(1) lt show ?case
    by (auto simp: upt_conv_Cons)
qed


lemma channel_real_extract_run:
  assumes "channel_seq_of E channel_code = (events, Inr (app_id, channel_seq))"
    and "\<forall>k. 1 \<le> k \<and> k < n \<longrightarrow>
             (\<exists>doc. page_doc E app_id channel_seq k = Some doc \<and> page_videos doc \<noteq> []
                    \<and> (\<forall>v \<in> set (page_videos doc). is_dict v))"
    and "page_doc E app_id channel_seq n = Some final" and "page_videos final = []" and "1 \<le> n"
  shows "\<exists>name. channel_real_extract E channel_code
           = Some (events @ map (\<lambda>k. Fetch (ChannelVideoList app_id channel_seq k)) [1..<Suc n],
                   Inr (PlaylistResult
                          (concat (map (\<lambda>k. listed E (page_videos (the (page_doc E app_id channel_seq k))))
                                     [1..<n]))
                          channel_code name))"
proof -
  from channel_pages_run [OF assms(2-5), of channel_code None "[]" events] obtain name where
    "channel_pages E channel_code app_id channel_seq 1 None [] events
     = Some (events @ map (\<lambda>k. Fetch (ChannelVideoList app_id channel_seq k)) [1..<Suc n],
             Inr (name,
                  concat (map (\<lambda>k. listed E (page_videos (the (page_doc E app_id channel_seq k)))) [1..<n])))"
    by auto
  then show ?thesis
    using assms(1) by (simp add: channel_real_extract_def)
qed

text \<open>
  Claim C9. Let the channel's sequence number be found, let the pages before page
  \<open>n\<close> be fetched and hold videos, all of them objects, and let page \<open>n\<close> hold
  none. Then the playlist returned holds, page after page and in the order of each
  page, one link for every item that carries a true \<^verbatim>\<open>videoSeq\<close>; the items whose
  \<^verbatim>\<open>videoSeq\<close> is absent or false in Python's sense are passed over without an error.
\<close>

theorem channel_listing_skips:
  assumes "channel_seq_of E channel_code = (events, Inr (app_id, channel_seq))"
    and "\<forall>k. 1 \<le> k \<and> k < n \<longrightarrow>
             (\<exists>doc. page_doc E app_id channel_seq k = Some doc \<and> page_videos doc \<noteq> []
                    \<and> (\<forall>v \<in> set (page_videos doc). is_dict v))"
    and "page_doc E app_id channel_seq n = Some final" and "page_videos final = []" and "1 \<le> n"
  shows "\<exists>name.
           channel_real_extract E channel_code
             = Some (events @ map (\<lambda>k. Fetch (ChannelVideoList app_id channel_seq k)) [1..<Suc n],
                     Inr (PlaylistResult
                            (concat (map (\<lambda>k. map (channel_entry E)
                                                  (filter (\<lambda>video. truthy (video_seq video))
                                                     (page_videos (the (page_doc E app_id channel_seq k)))))
                                       [1..<n]))
                            channel_code name))"
  using channel_real_extract_run [OF assms] by (simp add: listed_def)

text \<open>
  The theorem at a page of four items: the second has no \<^verbatim>\<open>videoSeq\<close>, the third
  has \<^verbatim>\<open>videoSeq\<close> 0.
\<close>

theorem channel_listing_skips_witness:
  "\<exists>name.
     channel_real_extract (channel_env mixed_pages) ''FCD4B''
     = Some ([Fetch (ChannelPage ''FCD4B''), Fetch (DecodeChannelCode APP_ID ''FCD4B''),
              Fetch (ChannelVideoList APP_ID (JInt 13) 1), Fetch (ChannelVideoList APP_ID (JInt 13) 2)],
             Inr (PlaylistResult
                    [UrlResult ''http://www.vlive.tv/video/7'' ''VLive'' ''7'',
                     UrlResult ''http://www.vlive.tv/video/9'' ''VLive'' ''9'']
                    ''FCD4B'' name))"
proof -
  have p: "\<forall>k. 1 \<le> k \<and> k < 2 \<longrightarrow>
             (\<exists>doc. page_doc (channel_env mixed_pages) APP_ID (JInt 13) k = Some doc \<and> page_videos doc \<noteq> []
                    \<and> (\<forall>v \<in> set (page_videos doc). is_dict v))"
  proof (intro allI impI)
    fix k :: nat
    assume "1 \<le> k \<and> k < 2"
    then have "k = 1" by simp
    then show "\<exists>doc. page_doc (channel_env mixed_pages) APP_ID (JInt 13) k = Some doc \<and> page_videos doc \<noteq> []
                    \<and> (\<forall>v \<in> set (page_videos doc). is_dict v)"
      using mixed_pages_1 by (simp add: page_videos_def try_get_def mixed_items_def)
  qed
  have e: "page_videos (JObj [(''result'', JObj [])]) = []"
    by (simp add: page_videos_def try_get_def)
  have "(1::nat) \<le> 2"
    by simp
  moreover have "[Suc 0..<2] = [Suc 0]" and "[Suc 0..<Suc 2] = [1, 2]"
    by (simp_all add: numeral_2_eq_2 upt_conv_Cons)
  ultimately show ?thesis
    using channel_listing_skips [OF seq_of_channel p mixed_pages_2 e] mixed_pages_1
    by (simp add: page_videos_def try_get_def mixed_items_def channel_entry_def
        video_seq_def str_int_def digits.simps)
qed



end
